theory Spec2Isabelle
  imports Complex_Main "HOL-Library.Sublist" "HOL-Library.Word"
begin

section \<open>SalinLive: the conversation handlers of App.tsx and their playback scheduler\<close>

text \<open>
  The repository holds two versions of the top-level component: \<^verbatim>\<open>src/App.tsx\<close> and
  \<^verbatim>\<open>src/unnamed/part_000\<close>. Both are embedded; a definition that follows
  \<^verbatim>\<open>src/App.tsx\<close> ends in \<open>_App\<close>, one that follows \<^verbatim>\<open>src/unnamed/part_000\<close> ends in
  \<open>_part000\<close>, and a definition without suffix is a block that reads the same in both.

  Conventions of the embedding.
  \<^item> A JavaScript string is a \<open>string\<close>; a \<open>char\<close> stands for a UTF-16 code unit below 256
    (the Latin-1 range), where \<open>trim\<close> and \<open>toLowerCase\<close> are modelled exactly.
  \<^item> Times (\<open>AudioContext.currentTime\<close>, \<open>AudioBuffer.duration\<close>, the argument of
    \<open>source.start\<close>) are JavaScript numbers, idealised as \<open>real\<close>.
  \<^item> A ref that holds an object or \<open>null\<close> is a \<open>bool\<close>: \<open>True\<close> when it is not \<open>null\<close>.
  \<^item> \<open>sourcesRef.current\<close>, a \<open>Set\<close>, is the list of its elements in insertion order.
  \<^item> The React state (\<open>state\<close>, \<open>mood\<close>, \<open>transcripts\<close>, \<open>errorMessage\<close>) is the value the
    setters called so far have produced.
  \<^item> What a handler reads from the environment is an argument: the clock of the playback
    context, \<open>Date.now()\<close>, and whether \<open>stop()\<close> on a given node throws.
\<close>

subsection \<open>Enumerations and entries (types.ts)\<close>

text \<open>
  Modelled from the spec: \<^verbatim>\<open>types.ts\<close> is not among the sources. The members of \<open>AppState\<close>
  and \<open>Mood\<close> are those of section 3 of the specification, which are also exactly the
  members the two components mention; \<open>TranscriptEntry\<close> has the three fields the
  turn-complete block writes. The roles are the literals \<^verbatim>\<open>'user'\<close> and \<^verbatim>\<open>'model'\<close>.
\<close>

datatype AppState = IDLE | CONNECTING | LISTENING | SPEAKING | STANDBY | SLEEP | ERROR

datatype Mood = HAPPY | SAD | SURPRISED | ANGRY | THINKING | NEUTRAL

datatype Role = User | Model

record TranscriptEntry =
  role :: Role
  entryText :: string
  timestamp :: nat

subsection \<open>String operations of the host language\<close>

text \<open>\<open>String.prototype.trim\<close>: white space and line terminators of the Latin-1 range are
  TAB, LF, VT, FF, CR, SPACE and NBSP.\<close>

definition is_ws :: "char \<Rightarrow> bool" where
  "is_ws c = (of_char c \<in> {9, 10, 11, 12, 13, 32, 160 :: nat})"

definition trim :: "string \<Rightarrow> string" where
  "trim s = rev (dropWhile is_ws (rev (dropWhile is_ws s)))"

text \<open>\<open>String.prototype.toLowerCase\<close> on the Latin-1 range: \<open>A\<close>..\<open>Z\<close> and the letters
  \<open>0xC0\<close>..\<open>0xDE\<close> other than the multiplication sign \<open>0xD7\<close> move up by 32, which
  sets the bit of weight 32; every other code unit stays.\<close>

definition is_upper :: "char \<Rightarrow> bool" where
  "is_upper c =
     (let n = (of_char c :: nat)
      in (65 \<le> n \<and> n \<le> 90) \<or> (192 \<le> n \<and> n \<le> 222 \<and> n \<noteq> 215))"

definition lower_char :: "char \<Rightarrow> char" where
  "lower_char c =
     (if is_upper c
      then (case c of Char b0 b1 b2 b3 b4 b5 b6 b7 \<Rightarrow> Char b0 b1 b2 b3 b4 True b6 b7)
      else c)"

definition toLowerCase :: "string \<Rightarrow> string" where
  "toLowerCase s = map lower_char s"

text \<open>\<open>String.prototype.includes\<close>: the pattern occurs at some position.\<close>

fun str_includes :: "string \<Rightarrow> string \<Rightarrow> bool" where
  "str_includes [] pat = (pat = [])"
| "str_includes (c # cs) pat = (prefix pat (c # cs) \<or> str_includes cs pat)"

text \<open>\<open>text.replace(pat, rep)\<close> with a string pattern replaces the first occurrence only.
  The only replacement the components pass is the empty string, which has no \<open>$\<close>
  patterns.\<close>

fun replace_first :: "string \<Rightarrow> string \<Rightarrow> string \<Rightarrow> string" where
  "replace_first [] pat rep = (if pat = [] then rep else [])"
| "replace_first (c # cs) pat rep =
     (if prefix pat (c # cs) then rep @ drop (length pat) (c # cs)
      else c # replace_first cs pat rep)"

text \<open>The regular expression
  \<^verbatim>\<open>/\[(HAPPY|SAD|SURPRISED|ANGRY|THINKING|NEUTRAL)\]/\<close>.
  \<open>mood_names\<close> lists the alternatives in the order of the expression, each with the
  member of \<open>Mood\<close> that the cast \<^verbatim>\<open>moodMatch[1] as Mood\<close> yields. \<open>match_at\<close> is the
  expression anchored at the head of its argument; \<open>match_mood\<close> is \<open>text.match\<close>, the
  leftmost match, returned as \<open>(moodMatch[0], moodMatch[1] as Mood)\<close>.\<close>

definition mood_names :: "(string \<times> Mood) list" where
  "mood_names =
     [(''HAPPY'', HAPPY), (''SAD'', SAD), (''SURPRISED'', SURPRISED),
      (''ANGRY'', ANGRY), (''THINKING'', THINKING), (''NEUTRAL'', NEUTRAL)]"

definition bracketed :: "string \<Rightarrow> string" where
  "bracketed name = ''['' @ name @ '']''"

definition match_at :: "string \<Rightarrow> (string \<times> Mood) option" where
  "match_at s =
     (case find (\<lambda>(name, md). prefix (bracketed name) s) mood_names of
        None \<Rightarrow> None
      | Some (name, md) \<Rightarrow> Some (bracketed name, md))"

fun match_mood :: "string \<Rightarrow> (string \<times> Mood) option" where
  "match_mood [] = None"
| "match_mood (c # cs) =
     (case match_at (c # cs) of
        Some r \<Rightarrow> Some r
      | None \<Rightarrow> match_mood cs)"

subsection \<open>The component's state\<close>

text \<open>An \<open>AudioBufferSourceNode\<close> is known by its identity.\<close>

type_synonym source = nat

text \<open>The callbacks handed to \<open>setTimeout\<close>. \<open>ForcedSleepStop\<close> is
  \<^verbatim>\<open>() => stopConversation(true)\<close> (part_000, line 151); \<open>WakeFromSleep\<close> is the callback of
  \<open>stopConversation\<close> (\<^verbatim>\<open>setState(AppState.IDLE); setMood(Mood.NEUTRAL)\<close>);
  \<open>EndedDebounce st\<close> is the callback of the \<open>ended\<close> listener of part_000 (lines
  184 to 189), where \<open>st\<close> is the value of \<open>state\<close> in its closure.\<close>

datatype callback = ForcedSleepStop | WakeFromSleep | EndedDebounce AppState

text \<open>The hooks of the component (\<open>useState\<close> and \<open>useRef\<close>), followed by three logs of
  calls to the outside: \<open>started\<close> lists the calls \<open>source.start(when)\<close>, \<open>stopCalls\<close> the
  nodes on which \<open>stop()\<close> was called, \<open>timers\<close> the pending \<open>setTimeout\<close> calls, each
  with its delay in milliseconds.\<close>

record app =
  state :: AppState
  mood :: Mood
  transcripts :: "TranscriptEntry list"
  errorMessage :: "string option"
  sessionRef :: bool
  audioContextRef :: bool
  outputAudioContextRef :: bool
  sourcesRef :: "source list"
  nextStartTimeRef :: real
  currentInputTranscription :: string
  currentOutputTranscription :: string
  recognitionRef :: bool
  started :: "(source \<times> real) list"
  stopCalls :: "source list"
  timers :: "(nat \<times> callback) list"

definition initial :: app where
  "initial =
     \<lparr>state = IDLE, mood = NEUTRAL, transcripts = [], errorMessage = None,
      sessionRef = False, audioContextRef = False, outputAudioContextRef = False,
      sourcesRef = [], nextStartTimeRef = 0,
      currentInputTranscription = [], currentOutputTranscription = [],
      recognitionRef = False, started = [], stopCalls = [], timers = []\<rparr>"

text \<open>\<open>Set.prototype.add\<close> and \<open>Set.prototype.delete\<close> on the insertion-ordered list.\<close>

definition set_add :: "source \<Rightarrow> source list \<Rightarrow> source list" where
  "set_add x xs = (if x \<in> set xs then xs else xs @ [x])"

definition set_delete :: "source \<Rightarrow> source list \<Rightarrow> source list" where
  "set_delete x xs = removeAll x xs"

subsection \<open>Messages, environment, completions\<close>

text \<open>A decoded audio part: \<open>node\<close> is the node \<open>ctx.createBufferSource()\<close> returns for
  it, \<open>duration\<close> is \<open>buffer.duration\<close> of the buffer that
  \<^verbatim>\<open>decodeAudioData(decode(audioData), ctx, 24000, 1)\<close> resolves to.\<close>

record chunk =
  node :: source
  duration :: real

text \<open>A \<open>LiveServerMessage\<close>, by what the handler reads of \<open>serverContent\<close>. A
  transcription is \<open>None\<close> when the object is absent, \<open>Some None\<close> when it is present
  and its optional \<open>text\<close> is \<open>undefined\<close>, \<open>Some (Some t)\<close> otherwise. The model turn
  is absent, or present without \<open>parts\<close>, or present with \<open>parts\<close>; in the last case it
  holds the chunk of its first part, \<open>None\<close> when the part or its inline data is absent
  or empty (falsy). A message without \<open>serverContent\<close> has every field absent.\<close>

datatype model_turn = NoModelTurn | NoParts | Parts "chunk option"

record message =
  outputTranscription :: "string option option"
  inputTranscription :: "string option option"
  turnComplete :: bool
  modelTurn :: model_turn
  interrupted :: bool

text \<open>The constant \<open>audioData\<close> of the handler. App.tsx (line 136) reads
  \<^verbatim>\<open>serverContent?.modelTurn?.parts?.[0]?.inlineData?.data\<close>, which is \<open>undefined\<close> for a
  model turn without parts. part_000 (line 133) reads \<^verbatim>\<open>modelTurn?.parts[0]\<close>, with no
  \<^verbatim>\<open>?.\<close> before the index: on a model turn without parts it throws, before any block
  of the handler; otherwise it has the same value.\<close>

definition audioData :: "message \<Rightarrow> chunk option" where
  "audioData m = (case modelTurn m of Parts d \<Rightarrow> d | _ \<Rightarrow> None)"

record env =
  currentTime :: real
  dateNow :: nat
  stopThrows :: "source \<Rightarrow> bool"

datatype error = TypeError | InvalidStateError

text \<open>How a block of statements ends: it falls through to the next statement, the
  handler returns, or an exception leaves the handler. Each carries the state as the
  block left it: what was assigned before a \<open>throw\<close> stays assigned.\<close>

datatype completion = Normal app | Return app | Throw error app

fun seq :: "completion \<Rightarrow> (app \<Rightarrow> completion) \<Rightarrow> completion" where
  "seq (Normal s) f = f s"
| "seq (Return s) f = Return s"
| "seq (Throw e s) f = Throw e s"

fun final :: "completion \<Rightarrow> app" where
  "final (Normal s) = s"
| "final (Return s) = s"
| "final (Throw e s) = s"

fun throws :: "completion \<Rightarrow> bool" where
  "throws (Throw e s) = True"
| "throws c = False"

subsection \<open>Force-stopping the live sources\<close>

text \<open>part_000 (lines 64 and 199): \<^verbatim>\<open>sourcesRef.current.forEach(s => s.stop())\<close>. A
  \<open>stop()\<close> that throws ends the iteration and leaves the enclosing function.\<close>

fun forEach_stop :: "(source \<Rightarrow> bool) \<Rightarrow> source list \<Rightarrow> app \<Rightarrow> completion" where
  "forEach_stop thr [] s = Normal s"
| "forEach_stop thr (x # xs) s =
     (let s1 = s\<lparr>stopCalls := stopCalls s @ [x]\<rparr>
      in if thr x then Throw InvalidStateError s1 else forEach_stop thr xs s1)"

text \<open>App.tsx (lines 54 to 56 and 196):
  \<^verbatim>\<open>sourcesRef.current.forEach(s => { try { s.stop(); } catch(e) {} })\<close>.\<close>

fun forEach_try_stop :: "(source \<Rightarrow> bool) \<Rightarrow> source list \<Rightarrow> app \<Rightarrow> app" where
  "forEach_try_stop thr [] s = s"
| "forEach_try_stop thr (x # xs) s =
     forEach_try_stop thr xs (s\<lparr>stopCalls := stopCalls s @ [x]\<rparr>)"

subsection \<open>stopConversation\<close>

text \<open>Both versions close and clear the three handles, force-stop every live source,
  clear the set and then set the state. \<open>session.close()\<close> and \<open>AudioContext.close()\<close>
  return without throwing; the channel's close event is delivered later, as an event
  of its own. part_000 calls \<open>stop()\<close> unguarded (line 64), App.tsx inside
  \<^verbatim>\<open>try { } catch(e) {}\<close> (line 55). Neither assigns \<open>nextStartTimeRef\<close>.\<close>

definition sleep_or_idle :: "bool \<Rightarrow> app \<Rightarrow> app" where
  "sleep_or_idle forceSleep s =
     (if forceSleep
      then s\<lparr>state := SLEEP, timers := timers s @ [(5000, WakeFromSleep)]\<rparr>
      else s\<lparr>state := IDLE, mood := NEUTRAL\<rparr>)"

definition close_handles :: "app \<Rightarrow> app" where
  "close_handles s =
     s\<lparr>sessionRef := False, audioContextRef := False, outputAudioContextRef := False\<rparr>"

definition stopConversation_part000 :: "(source \<Rightarrow> bool) \<Rightarrow> bool \<Rightarrow> app \<Rightarrow> completion" where
  "stopConversation_part000 thr forceSleep s =
     seq (forEach_stop thr (sourcesRef s) (close_handles s))
       (\<lambda>s1. Normal (sleep_or_idle forceSleep (s1\<lparr>sourcesRef := []\<rparr>)))"

definition stopConversation_App :: "(source \<Rightarrow> bool) \<Rightarrow> bool \<Rightarrow> app \<Rightarrow> completion" where
  "stopConversation_App thr forceSleep s =
     (let s1 = forEach_try_stop thr (sourcesRef s) (close_handles s)
      in Normal (sleep_or_idle forceSleep (s1\<lparr>sourcesRef := []\<rparr>)))"

subsection \<open>onmessage, block by block\<close>

text \<open>The transcription block. In both versions the input transcription is read only
  when the message has no output transcription (\<^verbatim>\<open>else if\<close>). The two arms are
  functions of the optional \<open>text\<close> of the transcription.

  part_000 (lines 135 to 153) uses \<open>text\<close> unguarded: on \<open>undefined\<close>,
  \<open>text.match\<close> throws; in the input arm the accumulator first receives the string
  \<^verbatim>\<open>undefined\<close> and the state is set before \<open>text.toLowerCase()\<close> throws. The farewell
  phrases are looked for in the fragment.\<close>

definition append_output :: "string \<Rightarrow> app \<Rightarrow> app" where
  "append_output text s =
     (case match_mood text of
        Some (tag, md) \<Rightarrow>
          s\<lparr>mood := md,
            currentOutputTranscription :=
              currentOutputTranscription s @ trim (replace_first text tag [])\<rparr>
      | None \<Rightarrow>
          s\<lparr>currentOutputTranscription := currentOutputTranscription s @ text\<rparr>)"

definition is_farewell :: "string \<Rightarrow> bool" where
  "is_farewell text =
     (str_includes (toLowerCase text) ''salamat salin''
      \<or> str_includes (toLowerCase text) ''thank you salin'')"

definition output_arm_part000 :: "string option \<Rightarrow> app \<Rightarrow> completion" where
  "output_arm_part000 t s =
     (case t of
        None \<Rightarrow> Throw TypeError s
      | Some text \<Rightarrow> Normal (append_output text s))"

definition input_arm_part000 :: "string option \<Rightarrow> app \<Rightarrow> completion" where
  "input_arm_part000 t s =
     (case t of
        None \<Rightarrow>
          Throw TypeError
            (s\<lparr>currentInputTranscription := currentInputTranscription s @ ''undefined'',
               state := LISTENING\<rparr>)
      | Some text \<Rightarrow>
          (let s1 = s\<lparr>currentInputTranscription := currentInputTranscription s @ text,
                       state := LISTENING\<rparr>
           in if is_farewell text
              then Normal (s1\<lparr>timers := timers s1 @ [(3000, ForcedSleepStop)]\<rparr>)
              else Normal s1))"

definition transcription_block_part000 :: "message \<Rightarrow> app \<Rightarrow> completion" where
  "transcription_block_part000 m s =
     (case outputTranscription m of
        Some t \<Rightarrow> output_arm_part000 t s
      | None \<Rightarrow>
          (case inputTranscription m of
             Some t \<Rightarrow> input_arm_part000 t s
           | None \<Rightarrow> Normal s))"

text \<open>App.tsx (lines 138 to 155) guards both arms with \<^verbatim>\<open>if (text)\<close>, which fails on
  \<open>undefined\<close> and on the empty string, and has no farewell phrase.\<close>

definition output_arm_App :: "string option \<Rightarrow> app \<Rightarrow> completion" where
  "output_arm_App t s =
     (case t of
        None \<Rightarrow> Normal s
      | Some text \<Rightarrow> Normal (if text \<noteq> [] then append_output text s else s))"

definition input_arm_App :: "string option \<Rightarrow> app \<Rightarrow> completion" where
  "input_arm_App t s =
     (case t of
        None \<Rightarrow> Normal s
      | Some text \<Rightarrow>
          Normal (if text \<noteq> []
                  then s\<lparr>currentInputTranscription := currentInputTranscription s @ text,
                         state := LISTENING\<rparr>
                  else s))"

definition transcription_block_App :: "message \<Rightarrow> app \<Rightarrow> completion" where
  "transcription_block_App m s =
     (case outputTranscription m of
        Some t \<Rightarrow> output_arm_App t s
      | None \<Rightarrow>
          (case inputTranscription m of
             Some t \<Rightarrow> input_arm_App t s
           | None \<Rightarrow> Normal s))"

text \<open>The turn-complete block, the same in both versions (part_000 lines 155 to 169,
  App.tsx lines 157 to 170).\<close>

definition turnComplete_block :: "env \<Rightarrow> message \<Rightarrow> app \<Rightarrow> completion" where
  "turnComplete_block e m s =
     (if turnComplete m
      then
        (let output = trim (currentOutputTranscription s);
             s1 = (if output \<noteq> []
                   then s\<lparr>transcripts := transcripts s @
                            [\<lparr>role = Model, entryText = output, timestamp = dateNow e\<rparr>]\<rparr>
                   else s);
             s2 = s1\<lparr>currentInputTranscription := [], currentOutputTranscription := []\<rparr>
         in Normal (if sourcesRef s2 = [] then s2\<lparr>state := LISTENING\<rparr> else s2))
      else Normal s)"

text \<open>The audio block. After \<^verbatim>\<open>setState(AppState.SPEAKING)\<close> the cursor is raised to the
  clock, the buffer is awaited, and the node is started at the cursor, which then
  advances by the buffer's duration; last the node joins the live set. The
  continuation of the \<open>await\<close> is run at once: no other handler runs between the
  two halves. With the playback context \<open>null\<close>, part_000 throws on
  \<open>ctx.currentTime\<close> (line 174) and App.tsx returns from the handler (line 175).\<close>

definition schedule :: "env \<Rightarrow> chunk \<Rightarrow> app \<Rightarrow> app" where
  "schedule e c s =
     (let s1 = s\<lparr>nextStartTimeRef := max (nextStartTimeRef s) (currentTime e)\<rparr>;
          s2 = s1\<lparr>started := started s1 @ [(node c, nextStartTimeRef s1)]\<rparr>;
          s3 = s2\<lparr>nextStartTimeRef := nextStartTimeRef s2 + duration c\<rparr>
      in s3\<lparr>sourcesRef := set_add (node c) (sourcesRef s3)\<rparr>)"

definition audio_block_part000 :: "env \<Rightarrow> message \<Rightarrow> app \<Rightarrow> completion" where
  "audio_block_part000 e m s =
     (case audioData m of
        None \<Rightarrow> Normal s
      | Some c \<Rightarrow>
          (let s1 = s\<lparr>state := SPEAKING\<rparr>
           in if outputAudioContextRef s1 then Normal (schedule e c s1)
              else Throw TypeError s1))"

definition audio_block_App :: "env \<Rightarrow> message \<Rightarrow> app \<Rightarrow> completion" where
  "audio_block_App e m s =
     (case audioData m of
        None \<Rightarrow> Normal s
      | Some c \<Rightarrow>
          (let s1 = s\<lparr>state := SPEAKING\<rparr>
           in if outputAudioContextRef s1 then Normal (schedule e c s1)
              else Return s1))"

text \<open>The interruption block: part_000 lines 198 to 204, App.tsx lines 195 to 200.\<close>

definition interrupted_block_part000 :: "env \<Rightarrow> message \<Rightarrow> app \<Rightarrow> completion" where
  "interrupted_block_part000 e m s =
     (if interrupted m
      then seq (forEach_stop (stopThrows e) (sourcesRef s) s)
             (\<lambda>s1. Normal (s1\<lparr>sourcesRef := [], nextStartTimeRef := 0,
                               state := LISTENING, mood := NEUTRAL\<rparr>))
      else Normal s)"

definition interrupted_block_App :: "env \<Rightarrow> message \<Rightarrow> app \<Rightarrow> completion" where
  "interrupted_block_App e m s =
     (if interrupted m
      then (let s1 = forEach_try_stop (stopThrows e) (sourcesRef s) s
            in Normal (s1\<lparr>sourcesRef := [], nextStartTimeRef := 0, state := LISTENING\<rparr>))
      else Normal s)"

text \<open>The handlers: the blocks in the order of the source; in part_000 after the
  read of \<open>audioData\<close>, which may throw.\<close>

definition onmessage_part000 :: "env \<Rightarrow> message \<Rightarrow> app \<Rightarrow> completion" where
  "onmessage_part000 e m s =
     (if modelTurn m = NoParts then Throw TypeError s
      else seq (seq (seq (transcription_block_part000 m s) (turnComplete_block e m))
                  (audio_block_part000 e m))
             (interrupted_block_part000 e m))"

definition onmessage_App :: "env \<Rightarrow> message \<Rightarrow> app \<Rightarrow> completion" where
  "onmessage_App e m s =
     seq (seq (seq (transcription_block_App m s) (turnComplete_block e m))
            (audio_block_App e m))
       (interrupted_block_App e m)"

subsection \<open>The other callbacks of the session\<close>

text \<open>\<open>onopen\<close>: part_000 dereferences \<^verbatim>\<open>audioContextRef.current!\<close> (line 118), App.tsx
  returns when it is \<open>null\<close> (line 119).\<close>

definition onopen_part000 :: "app \<Rightarrow> completion" where
  "onopen_part000 s =
     (let s1 = s\<lparr>state := LISTENING\<rparr>
      in if audioContextRef s1 then Normal s1 else Throw TypeError s1)"

definition onopen_App :: "app \<Rightarrow> completion" where
  "onopen_App s =
     (let s1 = s\<lparr>state := LISTENING\<rparr>
      in if audioContextRef s1 then Normal s1 else Return s1)"

definition onerror_part000 :: "app \<Rightarrow> app" where
  "onerror_part000 s = s\<lparr>errorMessage := Some ''Connection failed.'', state := ERROR\<rparr>"

definition onerror_App :: "app \<Rightarrow> app" where
  "onerror_App s =
     s\<lparr>errorMessage := Some ''Connection failed. Please check your API key.'',
       state := ERROR\<rparr>"

text \<open>\<open>onclose\<close> (part_000 lines 211 to 213, App.tsx lines 207 to 209):
  \<^verbatim>\<open>if (state !== AppState.SLEEP) setState(AppState.IDLE)\<close>.
  The callbacks are created inside \<open>startConversation\<close>, a function of one render of
  the component, and \<open>state\<close> is the constant that \<open>useState\<close> returned in that render.
  Later calls of \<open>setState\<close> make later renders with constants of their own; the
  callbacks of a running session keep the one they were created with. So the test
  reads \<open>captured\<close>, the state at the render from which \<open>startConversation\<close> was called,
  and not the state at the time of the close. The \<open>ended\<close> listeners read the same
  constant.\<close>

definition onclose :: "AppState \<Rightarrow> app \<Rightarrow> app" where
  "onclose captured s = (if captured \<noteq> SLEEP then s\<lparr>state := IDLE\<rparr> else s)"

text \<open>The \<open>ended\<close> listener of a node: part_000 lines 181 to 191 (debounced by 500 ms),
  App.tsx lines 183 to 188.\<close>

definition onended_part000 :: "AppState \<Rightarrow> source \<Rightarrow> app \<Rightarrow> app" where
  "onended_part000 captured x s =
     (let s1 = s\<lparr>sourcesRef := set_delete x (sourcesRef s)\<rparr>
      in if sourcesRef s1 = []
         then s1\<lparr>timers := timers s1 @ [(500, EndedDebounce captured)]\<rparr>
         else s1)"

definition onended_App :: "AppState \<Rightarrow> source \<Rightarrow> app \<Rightarrow> app" where
  "onended_App captured x s =
     (let s1 = s\<lparr>sourcesRef := set_delete x (sourcesRef s)\<rparr>
      in if sourcesRef s1 = [] \<and> captured \<noteq> SLEEP then s1\<lparr>state := LISTENING\<rparr> else s1)"

text \<open>A timer fires: its callback runs.\<close>

fun run_callback_part000 :: "env \<Rightarrow> callback \<Rightarrow> app \<Rightarrow> completion" where
  "run_callback_part000 e ForcedSleepStop s = stopConversation_part000 (stopThrows e) True s"
| "run_callback_part000 e WakeFromSleep s = Normal (s\<lparr>state := IDLE, mood := NEUTRAL\<rparr>)"
| "run_callback_part000 e (EndedDebounce captured) s =
     Normal (if sourcesRef s = [] \<and> captured \<noteq> SLEEP
             then s\<lparr>state := LISTENING, mood := NEUTRAL\<rparr> else s)"

text \<open>App.tsx registers no timer but \<open>WakeFromSleep\<close>.\<close>

fun run_callback_App :: "env \<Rightarrow> callback \<Rightarrow> app \<Rightarrow> completion" where
  "run_callback_App e WakeFromSleep s = Normal (s\<lparr>state := IDLE, mood := NEUTRAL\<rparr>)"
| "run_callback_App e cb s = Normal s"

definition remove_timer :: "nat \<Rightarrow> app \<Rightarrow> app" where
  "remove_timer i s = s\<lparr>timers := take i (timers s) @ drop (Suc i) (timers s)\<rparr>"

subsection \<open>Starting a conversation and the wake-word listener\<close>

text \<open>\<open>startConversation\<close> is run to its end, with the step that fails, if any, given:
  the missing key, a rejected \<open>getUserMedia\<close> (named \<open>NotAllowedError\<close> or
  \<open>PermissionDeniedError\<close>, or another error with its message; a rejected \<open>resume\<close> of
  a context in App.tsx is of the second kind), or a rejected connection. The playback
  and capture contexts are created before the microphone is asked for. Without a key,
  App.tsx throws before them (line 82); in part_000 the constructor of the client is
  given \<open>undefined\<close> and is taken to throw there. Every failure is caught inside the
  function. The callbacks handed to \<open>connect\<close> keep the \<open>state\<close> of the render that
  made this call: the events \<open>Close\<close> and \<open>Ended\<close> below carry it.\<close>

datatype start_result =
  Connected | NoApiKey | MicNotAllowed | MicFailed string | ConnectFailed string

definition begin_start :: "app \<Rightarrow> app" where
  "begin_start s = s\<lparr>state := CONNECTING, errorMessage := None\<rparr>"

definition with_contexts :: "app \<Rightarrow> app" where
  "with_contexts s = s\<lparr>audioContextRef := True, outputAudioContextRef := True\<rparr>"

definition fail_start :: "string \<Rightarrow> app \<Rightarrow> app" where
  "fail_start msg s = s\<lparr>errorMessage := Some msg, state := ERROR\<rparr>"

fun startConversation_part000 :: "start_result \<Rightarrow> app \<Rightarrow> app" where
  "startConversation_part000 Connected s = (with_contexts (begin_start s))\<lparr>sessionRef := True\<rparr>"
| "startConversation_part000 NoApiKey s = fail_start ''Mic access denied.'' (begin_start s)"
| "startConversation_part000 r s =
     fail_start ''Mic access denied.'' (with_contexts (begin_start s))"

definition failed_to_start :: "string \<Rightarrow> string" where
  "failed_to_start msg = ''Failed to start: '' @ (if msg = [] then ''Unknown error'' else msg)"

fun startConversation_App :: "start_result \<Rightarrow> app \<Rightarrow> app" where
  "startConversation_App Connected s = (with_contexts (begin_start s))\<lparr>sessionRef := True\<rparr>"
| "startConversation_App NoApiKey s =
     fail_start (failed_to_start ''API Key is missing in environment variables.'')
       (begin_start s)"
| "startConversation_App MicNotAllowed s =
     fail_start ''Microphone access was denied. Check site permissions.''
       (with_contexts (begin_start s))"
| "startConversation_App (MicFailed msg) s =
     fail_start (failed_to_start msg) (with_contexts (begin_start s))"
| "startConversation_App (ConnectFailed msg) s =
     fail_start (failed_to_start msg) (with_contexts (begin_start s))"

text \<open>\<open>toggleStandby\<close> and \<open>enableWakeWord\<close>; \<open>supported\<close> says whether the browser has
  a \<open>SpeechRecognition\<close> constructor.\<close>

definition toggleStandby :: "bool \<Rightarrow> app \<Rightarrow> app" where
  "toggleStandby supported s =
     (if state s = STANDBY then s\<lparr>state := IDLE\<rparr>
      else if supported then s\<lparr>recognitionRef := True, state := STANDBY\<rparr>
      else s)"

definition wakeWords_part000 :: "string list" where
  "wakeWords_part000 =
     [''hey salin'', ''hi salin'', ''hoy salin'', ''kamusta salin'', ''kumusta salin'',
      ''what's up salin'', ''translate'']"

definition wakeWords_App :: "string list" where
  "wakeWords_App = [''hey salin'', ''hi salin'', ''translate'']"

definition onresult_part000 :: "string \<Rightarrow> start_result \<Rightarrow> app \<Rightarrow> app" where
  "onresult_part000 transcript r s =
     (if list_ex (str_includes (toLowerCase transcript)) wakeWords_part000
      then startConversation_part000 r s else s)"

definition onresult_App :: "string \<Rightarrow> start_result \<Rightarrow> app \<Rightarrow> app" where
  "onresult_App transcript r s =
     (if list_ex (str_includes (toLowerCase transcript)) wakeWords_App
      then startConversation_App r s else s)"

subsection \<open>Events\<close>

text \<open>Everything that runs code of the component: the three buttons, the callbacks of
  the session, the \<open>ended\<close> event of a node, a timer that fires, and the callbacks of
  the recogniser (\<open>onend\<close> changes nothing of the state and is left out). \<open>Close\<close> and
  \<open>Ended\<close> carry the \<open>state\<close> their closure holds.\<close>

datatype event =
    UserStart start_result
  | UserStop
  | ToggleStandby bool
  | ClearTranscripts
  | Open
  | Message message
  | ChannelError
  | Close AppState
  | Ended AppState source
  | Timeout nat
  | RecognitionResult string start_result
  | RecognitionError

fun step_part000 :: "env \<Rightarrow> event \<Rightarrow> app \<Rightarrow> completion" where
  "step_part000 e (UserStart r) s = Normal (startConversation_part000 r s)"
| "step_part000 e UserStop s = stopConversation_part000 (stopThrows e) False s"
| "step_part000 e (ToggleStandby supported) s = Normal (toggleStandby supported s)"
| "step_part000 e ClearTranscripts s = Normal (s\<lparr>transcripts := []\<rparr>)"
| "step_part000 e Open s = onopen_part000 s"
| "step_part000 e (Message m) s = onmessage_part000 e m s"
| "step_part000 e ChannelError s = Normal (onerror_part000 s)"
| "step_part000 e (Close captured) s = Normal (onclose captured s)"
| "step_part000 e (Ended captured x) s = Normal (onended_part000 captured x s)"
| "step_part000 e (Timeout i) s =
     (if i < length (timers s)
      then run_callback_part000 e (snd (timers s ! i)) (remove_timer i s)
      else Normal s)"
| "step_part000 e (RecognitionResult transcript r) s = Normal (onresult_part000 transcript r s)"
| "step_part000 e RecognitionError s = Normal (s\<lparr>state := IDLE\<rparr>)"

fun step_App :: "env \<Rightarrow> event \<Rightarrow> app \<Rightarrow> completion" where
  "step_App e (UserStart r) s = Normal (startConversation_App r s)"
| "step_App e UserStop s = stopConversation_App (stopThrows e) False s"
| "step_App e (ToggleStandby supported) s = Normal (toggleStandby supported s)"
| "step_App e ClearTranscripts s = Normal (s\<lparr>transcripts := []\<rparr>)"
| "step_App e Open s = onopen_App s"
| "step_App e (Message m) s = onmessage_App e m s"
| "step_App e ChannelError s = Normal (onerror_App s)"
| "step_App e (Close captured) s = Normal (onclose captured s)"
| "step_App e (Ended captured x) s = Normal (onended_App captured x s)"
| "step_App e (Timeout i) s =
     (if i < length (timers s)
      then run_callback_App e (snd (timers s ! i)) (remove_timer i s)
      else Normal s)"
| "step_App e (RecognitionResult transcript r) s = Normal (onresult_App transcript r s)"
| "step_App e RecognitionError s = Normal (s\<lparr>state := IDLE\<rparr>)"

text \<open>A run: the events are handled one after the other, each from the state the
  previous one left, whether it returned or threw.\<close>

fun run_part000 :: "(env \<times> event) list \<Rightarrow> app \<Rightarrow> app" where
  "run_part000 [] s = s"
| "run_part000 ((e, ev) # evs) s = run_part000 evs (final (step_part000 e ev s))"

fun run_App :: "(env \<times> event) list \<Rightarrow> app \<Rightarrow> app" where
  "run_App [] s = s"
| "run_App ((e, ev) # evs) s = run_App evs (final (step_App e ev s))"

subsection \<open>The transcript view (components/Transcript.tsx)\<close>

text \<open>Line 22, the constant \<open>translations\<close>:
  \<^verbatim>\<open>entries.filter(entry => entry.role === 'model')\<close>.\<close>

definition shown_translations :: "TranscriptEntry list \<Rightarrow> TranscriptEntry list" where
  "shown_translations entries = filter (\<lambda>entry. role entry = Model) entries"

subsection \<open>The PCM codec (services/audioUtils)\<close>

text \<open>
  Modelled from the spec: \<^verbatim>\<open>services/audioUtils\<close> (\<open>createPcmBlob\<close>, \<open>decode\<close>,
  \<open>decodeAudioData\<close>) is not among the sources. Section 4.3 of the specification:
  the encoder scales each sample to a 16-bit signed little-endian integer, clamping to
  the representable range; the decoder converts each integer sample back to
  \<open>sample / 32768.0\<close>. The scale is taken to be the decoder's 32768, the quantization
  step being 1/32768. The specification does not say how the scaled sample is made
  an integer: \<open>rnd\<close> is that conversion (floor, truncation or rounding to nearest).
  A \<open>Float32\<close> sample times 32768 and a 16-bit integer over 32768 are exact in
  floating point, so the samples are \<open>real\<close>.
\<close>

definition clamp16 :: "int \<Rightarrow> int" where
  "clamp16 k = max (- 32768) (min 32767 k)"

definition encode_sample :: "(real \<Rightarrow> int) \<Rightarrow> real \<Rightarrow> 16 word" where
  "encode_sample rnd x = word_of_int (clamp16 (rnd (x * 32768)))"

definition to_le_bytes :: "16 word \<Rightarrow> 8 word list" where
  "to_le_bytes w = [ucast w, ucast (drop_bit 8 w)]"

definition of_le_bytes :: "8 word \<Rightarrow> 8 word \<Rightarrow> 16 word" where
  "of_le_bytes lo hi = word_cat hi lo"

definition encode :: "(real \<Rightarrow> int) \<Rightarrow> real list \<Rightarrow> 8 word list" where
  "encode rnd xs = concat (map (\<lambda>x. to_le_bytes (encode_sample rnd x)) xs)"

definition decode_sample :: "16 word \<Rightarrow> real" where
  "decode_sample w = real_of_int (sint w) / 32768"

fun decode :: "8 word list \<Rightarrow> real list" where
  "decode (lo # hi # bs) = decode_sample (of_le_bytes lo hi) # decode bs"
| "decode bs = []"

text \<open>A conversion to an integer that moves its argument by less than one.\<close>

definition rounds :: "(real \<Rightarrow> int) \<Rightarrow> bool" where
  "rounds rnd = (\<forall>y. \<bar>real_of_int (rnd y) - y\<bar> < 1)"

subsection \<open>Concrete inputs\<close>

text \<open>An environment in which no \<open>stop()\<close> throws, and one in which every \<open>stop()\<close>
  does.\<close>

definition never :: "source \<Rightarrow> bool" where
  "never x = False"

definition always :: "source \<Rightarrow> bool" where
  "always x = True"

definition quiet_env :: env where
  "quiet_env = \<lparr>currentTime = 0, dateNow = 1700000000000, stopThrows = never\<rparr>"

definition bare :: message where
  "bare = \<lparr>outputTranscription = None, inputTranscription = None, turnComplete = False,
      modelTurn = NoModelTurn, interrupted = False\<rparr>"

definition turn_end :: message where
  "turn_end = bare\<lparr>turnComplete := True\<rparr>"

text \<open>An output fragment that opens with a mood tag.\<close>

definition happy_fragment :: message where
  "happy_fragment = bare\<lparr>outputTranscription := Some (Some ''[HAPPY] Kumusta'')\<rparr>"

subsection \<open>Runs of audio chunks\<close>

text \<open>A message that carries one decoded chunk and nothing else; the events of a
  sequence of such messages, each with the reading of the playback clock at which it
  is handled; the start times a run has added to the log of \<open>source.start\<close>.\<close>

definition chunk_message :: "chunk \<Rightarrow> message" where
  "chunk_message c = bare\<lparr>modelTurn := Parts (Some c)\<rparr>"

definition chunk_events :: "env \<Rightarrow> (real \<times> chunk) list \<Rightarrow> (env \<times> event) list" where
  "chunk_events e tcs = map (\<lambda>(t, c). (e\<lparr>currentTime := t\<rparr>, Message (chunk_message c))) tcs"

definition new_starts :: "app \<Rightarrow> app \<Rightarrow> real list" where
  "new_starts s r = map snd (drop (length (started s)) (started r))"

text \<open>The scheduler in the words of section 4.4 of the specification, to compare the
  handlers with: \<^verbatim>\<open>startTime = max(nextStartTime, currentPlaybackClockTime)\<close>, then
  \<^verbatim>\<open>nextStartTime = startTime + chunkDuration\<close>.\<close>

fun spec_start_times :: "real \<Rightarrow> (real \<times> chunk) list \<Rightarrow> real list" where
  "spec_start_times nextStartTime [] = []"
| "spec_start_times nextStartTime ((clock, c) # tcs) =
     (let startTime = max nextStartTime clock
      in startTime # spec_start_times (startTime + duration c) tcs)"

text \<open>A session in progress, and three chunks with the clock readings at which they
  arrive.\<close>

definition playing :: app where
  "playing = initial\<lparr>state := LISTENING, sessionRef := True, audioContextRef := True,
     outputAudioContextRef := True\<rparr>"

definition three_chunks :: "(real \<times> chunk) list" where
  "three_chunks =
     [(1 / 2, \<lparr>node = 1, duration = 2\<rparr>), (1, \<lparr>node = 2, duration = 3\<rparr>),
      (4, \<lparr>node = 3, duration = 1\<rparr>)]"

subsection \<open>Kinds of events\<close>




text \<open>A message that carries the interruption flag and nothing else.\<close>

definition interruption :: message where
  "interruption = bare\<lparr>interrupted := True\<rparr>"

subsection \<open>Entries of the transcript\<close>

text \<open>Every entry has the role of the model.\<close>

definition all_model :: "TranscriptEntry list \<Rightarrow> bool" where
  "all_model entries = list_all (\<lambda>entry. role entry = Model) entries"

text \<open>A turn of one tagged fragment, then the end of the turn.\<close>

definition one_turn :: "(env \<times> event) list" where
  "one_turn = [(quiet_env, Message happy_fragment), (quiet_env, Message turn_end)]"

subsection \<open>A farewell\<close>

text \<open>An input fragment with a farewell phrase; the state of a session that has heard
  it; the state once the forced sleep has fired; and the run of the message and the two
  timers.\<close>

definition farewell :: message where
  "farewell = bare\<lparr>inputTranscription := Some (Some ''Thank you Salin!'')\<rparr>"

definition heard_farewell :: app where
  "heard_farewell =
     playing\<lparr>currentInputTranscription := ''Thank you Salin!'',
       timers := [(3000, ForcedSleepStop)]\<rparr>"

definition asleep :: app where
  "asleep =
     initial\<lparr>state := SLEEP, currentInputTranscription := ''Thank you Salin!'',
       timers := [(5000, WakeFromSleep)]\<rparr>"

definition farewell_run :: "(env \<times> event) list" where
  "farewell_run = [(quiet_env, Message farewell), (quiet_env, Timeout 0), (quiet_env, Timeout 0)]"

subsection \<open>States and runs around an interruption, a stop and a close\<close>

text \<open>A session that is speaking in a happy mood, with two live sources and the cursor
  at 7; an environment in which \<open>stop()\<close> throws on every node.\<close>

definition speaking_happy :: app where
  "speaking_happy =
     playing\<lparr>state := SPEAKING, mood := HAPPY, sourcesRef := [1, 2],
       nextStartTimeRef := 7, started := [(1, 0), (2, 3)]\<rparr>"

definition throwing_env :: env where
  "throwing_env = quiet_env\<lparr>stopThrows := always\<rparr>"

text \<open>A conversation is started from the initial state, opens, hears the farewell, and
  the forced sleep fires. Then: the start button is pressed again and the new
  conversation opens.\<close>

definition sleep_trace :: "(env \<times> event) list" where
  "sleep_trace =
     [(quiet_env, UserStart Connected), (quiet_env, Open), (quiet_env, Message farewell),
      (quiet_env, Timeout 0)]"

definition restart_trace :: "(env \<times> event) list" where
  "restart_trace = [(quiet_env, UserStart Connected), (quiet_env, Open)]"


text \<open>The farewell is heard while two sources are live, in an environment in which
  \<open>stop()\<close> throws, and the timer of the forced sleep fires.\<close>

definition farewell_then_timer :: "(env \<times> event) list" where
  "farewell_then_timer = [(throwing_env, Message farewell), (throwing_env, Timeout 0)]"

section \<open>Lemmas on the blocks\<close>

subsection \<open>trim\<close>

lemma trim_Nil_iff: "trim s = [] \<longleftrightarrow> list_all is_ws s"
proof
  assume "trim s = []"
  then have a: "\<forall>x\<in>set (dropWhile is_ws s). is_ws x"
    by (simp add: trim_def dropWhile_eq_Nil_conv)
  have "dropWhile is_ws s = []"
  proof (rule ccontr)
    assume n: "dropWhile is_ws s \<noteq> []"
    then have "\<not> is_ws (hd (dropWhile is_ws s))" by (rule hd_dropWhile)
    moreover have "hd (dropWhile is_ws s) \<in> set (dropWhile is_ws s)" using n by simp
    ultimately show False using a by blast
  qed
  then show "list_all is_ws s" by (simp add: dropWhile_eq_Nil_conv list_all_iff)
next
  assume "list_all is_ws s"
  then have d: "dropWhile is_ws s = []" by (simp add: dropWhile_eq_Nil_conv list_all_iff)
  show "trim s = []" unfolding trim_def d by simp
qed

subsection \<open>What force-stopping leaves alone\<close>

lemma forEach_try_stop_fields [simp]:
  "state (forEach_try_stop thr xs s) = state s"
  "mood (forEach_try_stop thr xs s) = mood s"
  "transcripts (forEach_try_stop thr xs s) = transcripts s"
  "errorMessage (forEach_try_stop thr xs s) = errorMessage s"
  "sessionRef (forEach_try_stop thr xs s) = sessionRef s"
  "audioContextRef (forEach_try_stop thr xs s) = audioContextRef s"
  "outputAudioContextRef (forEach_try_stop thr xs s) = outputAudioContextRef s"
  "sourcesRef (forEach_try_stop thr xs s) = sourcesRef s"
  "nextStartTimeRef (forEach_try_stop thr xs s) = nextStartTimeRef s"
  "currentInputTranscription (forEach_try_stop thr xs s) = currentInputTranscription s"
  "currentOutputTranscription (forEach_try_stop thr xs s) = currentOutputTranscription s"
  "recognitionRef (forEach_try_stop thr xs s) = recognitionRef s"
  "started (forEach_try_stop thr xs s) = started s"
  "timers (forEach_try_stop thr xs s) = timers s"
  "stopCalls (forEach_try_stop thr xs s) = stopCalls s @ xs"
  by (induction xs arbitrary: s) simp_all

lemma forEach_stop_fields [simp]:
  "state (final (forEach_stop thr xs s)) = state s"
  "mood (final (forEach_stop thr xs s)) = mood s"
  "transcripts (final (forEach_stop thr xs s)) = transcripts s"
  "errorMessage (final (forEach_stop thr xs s)) = errorMessage s"
  "sessionRef (final (forEach_stop thr xs s)) = sessionRef s"
  "audioContextRef (final (forEach_stop thr xs s)) = audioContextRef s"
  "outputAudioContextRef (final (forEach_stop thr xs s)) = outputAudioContextRef s"
  "sourcesRef (final (forEach_stop thr xs s)) = sourcesRef s"
  "nextStartTimeRef (final (forEach_stop thr xs s)) = nextStartTimeRef s"
  "currentInputTranscription (final (forEach_stop thr xs s)) = currentInputTranscription s"
  "currentOutputTranscription (final (forEach_stop thr xs s)) = currentOutputTranscription s"
  "recognitionRef (final (forEach_stop thr xs s)) = recognitionRef s"
  "started (final (forEach_stop thr xs s)) = started s"
  "timers (final (forEach_stop thr xs s)) = timers s"
  by (induction xs arbitrary: s) (simp_all add: Let_def)

subsection \<open>Completions\<close>

lemma Normal_final: "\<not> throws c \<Longrightarrow> (\<forall>s. c \<noteq> Return s) \<Longrightarrow> c = Normal (final c)"
  by (cases c) simp_all

lemma transcription_block_App_Normal:
  "transcription_block_App m s = Normal (final (transcription_block_App m s))"
  by (simp add: transcription_block_App_def output_arm_App_def
      input_arm_App_def split: option.splits)

lemma transcription_block_part000_Normal:
  "\<not> throws (transcription_block_part000 m s) \<Longrightarrow>
   transcription_block_part000 m s = Normal (final (transcription_block_part000 m s))"
  by (rule Normal_final)
    (auto simp add: transcription_block_part000_def output_arm_part000_def
      input_arm_part000_def Let_def split: option.splits if_splits)

lemma turnComplete_block_Normal:
  "turnComplete_block e m s = Normal (final (turnComplete_block e m s))"
  by (simp add: turnComplete_block_def Let_def)

lemma onmessage_App_after_turn:
  "final (onmessage_App e m s) =
   final (seq (audio_block_App e m
                 (final (turnComplete_block e m (final (transcription_block_App m s)))))
              (interrupted_block_App e m))"
  unfolding onmessage_App_def
  by (subst transcription_block_App_Normal, simp, subst turnComplete_block_Normal, simp)

lemma onmessage_part000_NoParts:
  "modelTurn m = NoParts \<Longrightarrow> onmessage_part000 e m s = Throw TypeError s"
  by (simp add: onmessage_part000_def)

lemma onmessage_part000_blocks:
  "modelTurn m \<noteq> NoParts \<Longrightarrow>
   onmessage_part000 e m s =
     seq (seq (seq (transcription_block_part000 m s) (turnComplete_block e m))
            (audio_block_part000 e m))
       (interrupted_block_part000 e m)"
  by (simp add: onmessage_part000_def)

lemma audioData_Some_parts: "audioData m = Some c \<Longrightarrow> modelTurn m \<noteq> NoParts"
  by (auto simp add: audioData_def)

lemma onmessage_part000_after_turn:
  "modelTurn m \<noteq> NoParts \<Longrightarrow> \<not> throws (transcription_block_part000 m s) \<Longrightarrow>
   final (onmessage_part000 e m s) =
   final (seq (audio_block_part000 e m
                 (final (turnComplete_block e m (final (transcription_block_part000 m s)))))
              (interrupted_block_part000 e m))"
  unfolding onmessage_part000_blocks
  by (subst transcription_block_part000_Normal, simp, simp,
      subst turnComplete_block_Normal, simp)

subsection \<open>The turn-complete block and what follows it\<close>

lemma turn_block:
  assumes "turnComplete m"
  shows "transcripts (final (turnComplete_block e m s)) =
          (if list_all is_ws (currentOutputTranscription s) then transcripts s
           else transcripts s @
             [\<lparr>role = Model, entryText = trim (currentOutputTranscription s),
               timestamp = dateNow e\<rparr>])"
    and "currentInputTranscription (final (turnComplete_block e m s)) = []"
    and "currentOutputTranscription (final (turnComplete_block e m s)) = []"
  using assms by (simp_all add: turnComplete_block_def Let_def trim_Nil_iff)

lemma audio_App_keeps:
  "transcripts (final (audio_block_App e m s)) = transcripts s"
  "currentInputTranscription (final (audio_block_App e m s)) = currentInputTranscription s"
  "currentOutputTranscription (final (audio_block_App e m s)) = currentOutputTranscription s"
  by (simp_all add: audio_block_App_def schedule_def Let_def split: option.splits)

lemma audio_part000_keeps:
  "transcripts (final (audio_block_part000 e m s)) = transcripts s"
  "currentInputTranscription (final (audio_block_part000 e m s)) = currentInputTranscription s"
  "currentOutputTranscription (final (audio_block_part000 e m s)) = currentOutputTranscription s"
  by (simp_all add: audio_block_part000_def schedule_def Let_def split: option.splits)

lemma interrupted_App_keeps:
  "transcripts (final (interrupted_block_App e m s)) = transcripts s"
  "currentInputTranscription (final (interrupted_block_App e m s)) = currentInputTranscription s"
  "currentOutputTranscription (final (interrupted_block_App e m s)) = currentOutputTranscription s"
  by (simp_all add: interrupted_block_App_def Let_def)

lemma interrupted_part000_keeps:
  "transcripts (final (interrupted_block_part000 e m s)) = transcripts s"
  "currentInputTranscription (final (interrupted_block_part000 e m s)) = currentInputTranscription s"
  "currentOutputTranscription (final (interrupted_block_part000 e m s)) = currentOutputTranscription s"
  unfolding interrupted_block_part000_def
  by (cases "forEach_stop (stopThrows e) (sourcesRef s) s";
      use forEach_stop_fields[of "stopThrows e" "sourcesRef s" s] in \<open>simp\<close>)+

lemma tail_App_keeps:
  "transcripts (final (seq (audio_block_App e m s) (interrupted_block_App e m))) = transcripts s"
  "currentInputTranscription (final (seq (audio_block_App e m s) (interrupted_block_App e m)))
     = currentInputTranscription s"
  "currentOutputTranscription (final (seq (audio_block_App e m s) (interrupted_block_App e m)))
     = currentOutputTranscription s"
  using audio_App_keeps[of e m s]
  by (cases "audio_block_App e m s"; simp add: interrupted_App_keeps)+

lemma tail_part000_keeps:
  "transcripts (final (seq (audio_block_part000 e m s) (interrupted_block_part000 e m)))
     = transcripts s"
  "currentInputTranscription
     (final (seq (audio_block_part000 e m s) (interrupted_block_part000 e m)))
     = currentInputTranscription s"
  "currentOutputTranscription
     (final (seq (audio_block_part000 e m s) (interrupted_block_part000 e m)))
     = currentOutputTranscription s"
  using audio_part000_keeps[of e m s]
  by (cases "audio_block_part000 e m s"; simp add: interrupted_part000_keeps)+

subsection \<open>The codec\<close>

lemma of_le_bytes_to_le_bytes: "of_le_bytes (ucast w) (ucast (drop_bit 8 w)) = (w :: 16 word)"
  unfolding of_le_bytes_def
  by (rule bit_word_eqI) (auto simp add: bit_simps)

lemma decode_encode:
  "decode (encode rnd xs) = map (\<lambda>x. decode_sample (encode_sample rnd x)) xs"
  by (induction xs) (simp_all add: encode_def to_le_bytes_def of_le_bytes_to_le_bytes)

lemma sint_encode_sample: "sint (encode_sample rnd x) = clamp16 (rnd (x * 32768))"
proof -
  have "- 32768 \<le> clamp16 (rnd (x * 32768))" "clamp16 (rnd (x * 32768)) \<le> 32767"
    by (simp_all add: clamp16_def)
  then show ?thesis by (simp add: encode_sample_def int_word_sint)
qed

lemma rounds_floor: "rounds floor"
  unfolding rounds_def by (intro allI) linarith

subsection \<open>The mood tag of a fragment\<close>

lemma match_at_Some:
  assumes "match_at s = Some (tag, md)"
  shows "\<exists>name. (name, md) \<in> set mood_names \<and> tag = bracketed name \<and> prefix tag s"
proof -
  from assms obtain name where
    f: "find (\<lambda>(name, md). prefix (bracketed name) s) mood_names = Some (name, md)"
    and t: "tag = bracketed name"
    by (auto simp add: match_at_def split: option.splits prod.splits)
  from f have "(name, md) \<in> set mood_names" "prefix (bracketed name) s"
    by (auto simp add: find_Some_iff dest: nth_mem)
  with t show ?thesis by blast
qed

lemma match_at_None:
  assumes "match_at s = None" "(name, md) \<in> set mood_names"
  shows "\<not> prefix (bracketed name) s"
proof -
  from assms(1) have "find (\<lambda>(name, md). prefix (bracketed name) s) mood_names = None"
    by (simp add: match_at_def split: option.splits prod.splits)
  with assms(2) show ?thesis by (auto simp add: find_None_iff)
qed

lemma match_mood_Some:
  assumes "match_mood frag = Some (tag, md)"
  shows "\<exists>pre name post. (name, md) \<in> set mood_names \<and> tag = bracketed name
      \<and> frag = pre @ tag @ post
      \<and> replace_first frag tag [] = pre @ post
      \<and> (\<forall>a n d b. (n, d) \<in> set mood_names \<and> frag = a @ bracketed n @ b
            \<longrightarrow> length pre \<le> length a)"
  using assms
proof (induction frag rule: match_mood.induct)
  case 1
  then show ?case by simp
next
  case (2 c cs)
  show ?case
  proof (cases "match_at (c # cs)")
    case (Some r)
    with "2.prems" have m: "match_at (c # cs) = Some (tag, md)" by simp
    from match_at_Some[OF m] obtain name where
      n: "(name, md) \<in> set mood_names" "tag = bracketed name" "prefix tag (c # cs)" by blast
    from n(3) obtain post where p: "c # cs = tag @ post" by (auto simp: prefix_def)
    have "replace_first (c # cs) tag [] = drop (length tag) (c # cs)" using n(3) by simp
    also have "\<dots> = post" by (simp add: p)
    finally have "replace_first (c # cs) tag [] = post" .
    with n p show ?thesis by (intro exI[of _ "[]"] exI[of _ name] exI[of _ post]) simp
  next
    case None
    with "2.prems" have r: "match_mood cs = Some (tag, md)" by simp
    from "2.IH"[OF None r] obtain pre name post where
      ih: "(name, md) \<in> set mood_names" "tag = bracketed name" "cs = pre @ tag @ post"
        "replace_first cs tag [] = pre @ post"
        "\<forall>a n d b. (n, d) \<in> set mood_names \<and> cs = a @ bracketed n @ b \<longrightarrow> length pre \<le> length a"
      by blast
    have np: "\<not> prefix tag (c # cs)" using match_at_None[OF None ih(1)] ih(2) by simp
    have rf: "replace_first (c # cs) tag [] = (c # pre) @ post" using np ih(4) by simp
    have left: "length (c # pre) \<le> length a"
      if "(n, d) \<in> set mood_names" "c # cs = a @ bracketed n @ b" for a n d b
    proof (cases a)
      case Nil
      with that(2) have "prefix (bracketed n) (c # cs)" by (simp add: prefix_def)
      with match_at_None[OF None that(1)] show ?thesis by simp
    next
      case (Cons x a')
      with that(2) have "cs = a' @ bracketed n @ b" by simp
      with ih(5) that(1) have "length pre \<le> length a'" by blast
      with Cons show ?thesis by simp
    qed
    have "\<forall>a n d b. (n, d) \<in> set mood_names \<and> c # cs = a @ bracketed n @ b
            \<longrightarrow> length (c # pre) \<le> length a"
      using left by blast
    moreover have "c # cs = (c # pre) @ tag @ post" using ih(3) by simp
    ultimately show ?thesis using ih(1,2) rf by blast
  qed
qed

lemma match_mood_None:
  assumes "match_mood frag = None" "(n, d) \<in> set mood_names"
  shows "frag \<noteq> a @ bracketed n @ b"
  using assms(1)
proof (induction frag arbitrary: a rule: match_mood.induct)
  case 1
  then show ?case by (simp add: bracketed_def)
next
  case (2 c cs)
  from "2.prems" have at: "match_at (c # cs) = None" and r: "match_mood cs = None"
    by (simp_all split: option.splits)
  show ?case
  proof (cases a)
    case Nil
    show ?thesis using match_at_None[OF at assms(2)] Nil by (auto simp: prefix_def)
  next
    case (Cons x a')
    show ?thesis using "2.IH"[OF at r, of a'] Cons by simp
  qed
qed

lemma trim_decomp:
  "\<exists>l r. u = l @ trim u @ r \<and> list_all is_ws l \<and> list_all is_ws r"
proof -
  let ?v = "dropWhile is_ws u"
  have u: "u = takeWhile is_ws u @ ?v" by simp
  have "rev (rev ?v) = rev (takeWhile is_ws (rev ?v) @ dropWhile is_ws (rev ?v))"
    by (simp only: takeWhile_dropWhile_id)
  then have v: "?v = trim u @ rev (takeWhile is_ws (rev ?v))"
    by (simp only: rev_rev_ident rev_append trim_def)
  have l: "list_all is_ws (takeWhile is_ws u)"
    by (simp add: list_all_iff) (meson set_takeWhileD)
  have r: "list_all is_ws (rev (takeWhile is_ws (rev ?v)))"
    by (simp add: list_all_iff) (meson set_takeWhileD)
  from u v have "u = takeWhile is_ws u @ trim u @ rev (takeWhile is_ws (rev ?v))"
    by metis
  with l r show ?thesis by blast
qed

lemma append_output_Nil: "append_output [] s = s"
  by (simp add: append_output_def)

lemma transcription_App_output:
  "outputTranscription m = Some (Some frag) \<Longrightarrow>
   transcription_block_App m s = Normal (append_output frag s)"
  by (simp add: transcription_block_App_def output_arm_App_def
      input_arm_App_def append_output_Nil)

lemma transcription_part000_output:
  "outputTranscription m = Some (Some frag) \<Longrightarrow>
   transcription_block_part000 m s = Normal (append_output frag s)"
  by (simp add: transcription_block_part000_def output_arm_part000_def
      input_arm_part000_def)

lemma match_mood_happy: "match_mood ''[HAPPY] Kumusta'' = Some (''[HAPPY]'', HAPPY)"
  by (simp add: match_at_def mood_names_def bracketed_def)

lemma append_happy:
  "append_output ''[HAPPY] Kumusta'' initial =
     initial\<lparr>mood := HAPPY, currentOutputTranscription := ''Kumusta''\<rparr>"
  unfolding append_output_def match_mood_happy
  by (simp add: trim_def is_ws_def initial_def)

subsection \<open>Scheduling\<close>

lemma schedule_fields:
  "started (schedule e c s) = started s @ [(node c, max (nextStartTimeRef s) (currentTime e))]"
  "nextStartTimeRef (schedule e c s) = max (nextStartTimeRef s) (currentTime e) + duration c"
  "outputAudioContextRef (schedule e c s) = outputAudioContextRef s"
  "sourcesRef (schedule e c s) = set_add (node c) (sourcesRef s)"
  by (simp_all add: schedule_def Let_def)

lemma chunk_message_App:
  "outputAudioContextRef s \<Longrightarrow>
   onmessage_App e (chunk_message c) s = Normal (schedule e c (s\<lparr>state := SPEAKING\<rparr>))"
  by (simp add: onmessage_App_def chunk_message_def bare_def audioData_def transcription_block_App_def output_arm_App_def
      input_arm_App_def
      turnComplete_block_def audio_block_App_def interrupted_block_App_def)

lemma chunk_message_part000:
  "outputAudioContextRef s \<Longrightarrow>
   onmessage_part000 e (chunk_message c) s = Normal (schedule e c (s\<lparr>state := SPEAKING\<rparr>))"
  by (simp add: onmessage_part000_def chunk_message_def bare_def audioData_def transcription_block_part000_def output_arm_part000_def
      input_arm_part000_def
      turnComplete_block_def audio_block_part000_def interrupted_block_part000_def)

lemma run_chunks_App:
  "outputAudioContextRef s \<Longrightarrow>
   started (run_App (chunk_events e tcs) s) =
     started s @ zip (map (\<lambda>tc. node (snd tc)) tcs) (spec_start_times (nextStartTimeRef s) tcs)"
proof (induction tcs arbitrary: s)
  case Nil
  then show ?case by (simp add: chunk_events_def)
next
  case (Cons tc tcs)
  obtain t c where tc: "tc = (t, c)" by (cases tc)
  let ?s1 = "schedule (e\<lparr>currentTime := t\<rparr>) c (s\<lparr>state := SPEAKING\<rparr>)"
  have step: "run_App (chunk_events e (tc # tcs)) s = run_App (chunk_events e tcs) ?s1"
    using Cons.prems by (simp add: chunk_events_def tc chunk_message_App)
  have ctx: "outputAudioContextRef ?s1" using Cons.prems by (simp add: schedule_fields)
  show ?case
    unfolding step Cons.IH[OF ctx]
    by (simp add: schedule_fields tc Let_def)
qed

lemma run_chunks_part000:
  "outputAudioContextRef s \<Longrightarrow>
   started (run_part000 (chunk_events e tcs) s) =
     started s @ zip (map (\<lambda>tc. node (snd tc)) tcs) (spec_start_times (nextStartTimeRef s) tcs)"
proof (induction tcs arbitrary: s)
  case Nil
  then show ?case by (simp add: chunk_events_def)
next
  case (Cons tc tcs)
  obtain t c where tc: "tc = (t, c)" by (cases tc)
  let ?s1 = "schedule (e\<lparr>currentTime := t\<rparr>) c (s\<lparr>state := SPEAKING\<rparr>)"
  have step: "run_part000 (chunk_events e (tc # tcs)) s = run_part000 (chunk_events e tcs) ?s1"
    using Cons.prems by (simp add: chunk_events_def tc chunk_message_part000)
  have ctx: "outputAudioContextRef ?s1" using Cons.prems by (simp add: schedule_fields)
  show ?case
    unfolding step Cons.IH[OF ctx]
    by (simp add: schedule_fields tc Let_def)
qed

lemma length_spec_start_times [simp]: "length (spec_start_times n tcs) = length tcs"
  by (induction tcs arbitrary: n) (auto simp: Let_def)

lemma new_starts_zip:
  "started r = started s @ zip xs ys \<Longrightarrow> length xs = length ys \<Longrightarrow> new_starts s r = ys"
  by (simp add: new_starts_def)

lemma spec_start_times_Suc:
  "Suc i < length tcs \<Longrightarrow>
   spec_start_times n tcs ! Suc i =
     max (spec_start_times n tcs ! i + duration (snd (tcs ! i))) (fst (tcs ! Suc i))"
proof (induction tcs arbitrary: n i)
  case Nil
  then show ?case by simp
next
  case (Cons tc tcs)
  obtain t c where tc: "tc = (t, c)" by (cases tc)
  show ?case
  proof (cases i)
    case 0
    with Cons.prems obtain t' c' rest where r: "tcs = (t', c') # rest"
      by (cases tcs) auto
    show ?thesis by (simp add: 0 tc r Let_def)
  next
    case (Suc j)
    with Cons.prems have "Suc j < length tcs" by simp
    from Cons.IH[OF this] show ?thesis by (simp add: Suc tc Let_def)
  qed
qed

lemma append_output_frame:
  "nextStartTimeRef (append_output frag s) = nextStartTimeRef s"
  "started (append_output frag s) = started s"
  "outputAudioContextRef (append_output frag s) = outputAudioContextRef s"
  "sourcesRef (append_output frag s) = sourcesRef s"
  "transcripts (append_output frag s) = transcripts s"
  "timers (append_output frag s) = timers s"
  "state (append_output frag s) = state s"
  by (simp_all add: append_output_def split: option.splits prod.splits)

lemma transcription_App_frame:
  "nextStartTimeRef (final (transcription_block_App m s)) = nextStartTimeRef s"
  "started (final (transcription_block_App m s)) = started s"
  "outputAudioContextRef (final (transcription_block_App m s)) = outputAudioContextRef s"
  "sourcesRef (final (transcription_block_App m s)) = sourcesRef s"
  "transcripts (final (transcription_block_App m s)) = transcripts s"
  "timers (final (transcription_block_App m s)) = timers s"
  by (simp_all add: transcription_block_App_def output_arm_App_def
      input_arm_App_def append_output_frame split: option.splits)

lemma transcription_part000_frame:
  "nextStartTimeRef (final (transcription_block_part000 m s)) = nextStartTimeRef s"
  "started (final (transcription_block_part000 m s)) = started s"
  "outputAudioContextRef (final (transcription_block_part000 m s)) = outputAudioContextRef s"
  "sourcesRef (final (transcription_block_part000 m s)) = sourcesRef s"
  "transcripts (final (transcription_block_part000 m s)) = transcripts s"
  by (simp_all add: transcription_block_part000_def output_arm_part000_def
      input_arm_part000_def append_output_frame Let_def
      split: option.splits)

lemma turn_frame:
  "nextStartTimeRef (final (turnComplete_block e m s)) = nextStartTimeRef s"
  "started (final (turnComplete_block e m s)) = started s"
  "outputAudioContextRef (final (turnComplete_block e m s)) = outputAudioContextRef s"
  "sourcesRef (final (turnComplete_block e m s)) = sourcesRef s"
  "timers (final (turnComplete_block e m s)) = timers s"
  "mood (final (turnComplete_block e m s)) = mood s"
  by (simp_all add: turnComplete_block_def Let_def)

lemma audio_then_no_interruption_App:
  assumes "audioData m = Some c" "\<not> interrupted m" "outputAudioContextRef s"
  shows "final (seq (audio_block_App e m s) (interrupted_block_App e m)) =
           schedule e c (s\<lparr>state := SPEAKING\<rparr>)"
  using assms by (simp add: audio_block_App_def interrupted_block_App_def)

lemma audio_then_no_interruption_part000:
  assumes "audioData m = Some c" "\<not> interrupted m" "outputAudioContextRef s"
  shows "final (seq (audio_block_part000 e m s) (interrupted_block_part000 e m)) =
           schedule e c (s\<lparr>state := SPEAKING\<rparr>)"
  using assms by (simp add: audio_block_part000_def interrupted_block_part000_def)

lemma schedule_one_App:
  assumes "audioData m = Some c" "\<not> interrupted m" "outputAudioContextRef s"
  shows "started (final (onmessage_App e m s)) =
           started s @ [(node c, max (nextStartTimeRef s) (currentTime e))]"
    and "nextStartTimeRef (final (onmessage_App e m s)) =
           max (nextStartTimeRef s) (currentTime e) + duration c"
proof -
  let ?s2 = "final (turnComplete_block e m (final (transcription_block_App m s)))"
  have ctx: "outputAudioContextRef ?s2"
    using assms(3) by (simp add: turn_frame transcription_App_frame)
  have f: "final (onmessage_App e m s) = schedule e c (?s2\<lparr>state := SPEAKING\<rparr>)"
    by (simp only: onmessage_App_after_turn
        audio_then_no_interruption_App[OF assms(1,2) ctx])
  show "started (final (onmessage_App e m s)) =
           started s @ [(node c, max (nextStartTimeRef s) (currentTime e))]"
    by (simp add: f schedule_fields turn_frame transcription_App_frame)
  show "nextStartTimeRef (final (onmessage_App e m s)) =
           max (nextStartTimeRef s) (currentTime e) + duration c"
    by (simp add: f schedule_fields turn_frame transcription_App_frame)
qed

lemma schedule_one_part000:
  assumes "audioData m = Some c" "\<not> interrupted m" "outputAudioContextRef s"
    and nt: "\<not> throws (transcription_block_part000 m s)"
  shows "started (final (onmessage_part000 e m s)) =
           started s @ [(node c, max (nextStartTimeRef s) (currentTime e))]"
    and "nextStartTimeRef (final (onmessage_part000 e m s)) =
           max (nextStartTimeRef s) (currentTime e) + duration c"
proof -
  let ?s2 = "final (turnComplete_block e m (final (transcription_block_part000 m s)))"
  have ctx: "outputAudioContextRef ?s2"
    using assms(3) by (simp add: turn_frame transcription_part000_frame)
  have f: "final (onmessage_part000 e m s) = schedule e c (?s2\<lparr>state := SPEAKING\<rparr>)"
    by (simp only: onmessage_part000_after_turn[OF audioData_Some_parts[OF assms(1)] nt]
        audio_then_no_interruption_part000[OF assms(1,2) ctx])
  show "started (final (onmessage_part000 e m s)) =
           started s @ [(node c, max (nextStartTimeRef s) (currentTime e))]"
    by (simp add: f schedule_fields turn_frame transcription_part000_frame)
  show "nextStartTimeRef (final (onmessage_part000 e m s)) =
           max (nextStartTimeRef s) (currentTime e) + duration c"
    by (simp add: f schedule_fields turn_frame transcription_part000_frame)
qed

lemma three_chunks_spec: "spec_start_times 0 three_chunks = [1 / 2, 5 / 2, 11 / 2]"
  by (simp add: three_chunks_def Let_def)

subsection \<open>What each handler does to the cursor and to the transcript\<close>

lemma final_seq:
  "final (seq c f) = (case c of Normal s \<Rightarrow> final (f s) | Return s \<Rightarrow> s | Throw x s \<Rightarrow> s)"
  by (cases c) simp_all

lemma forEach_stop_no_Return: "forEach_stop thr xs s \<noteq> Return r"
  by (induction xs arbitrary: s) (simp_all add: Let_def)

lemma forEach_stop_throws: "throws (forEach_stop thr xs s) \<longleftrightarrow> list_ex thr xs"
  by (induction xs arbitrary: s) (simp_all add: Let_def)

lemma forEach_stop_Normal:
  "\<not> list_ex thr xs \<Longrightarrow> forEach_stop thr xs s = Normal (s\<lparr>stopCalls := stopCalls s @ xs\<rparr>)"
  by (induction xs arbitrary: s) (simp_all add: Let_def)

lemma stop_part000_frame:
  "nextStartTimeRef (final (stopConversation_part000 thr f s)) = nextStartTimeRef s"
  "transcripts (final (stopConversation_part000 thr f s)) = transcripts s"
proof -
  let ?c = "forEach_stop thr (sourcesRef s) (close_handles s)"
  have a: "nextStartTimeRef (final ?c) = nextStartTimeRef s"
    "transcripts (final ?c) = transcripts s"
    by (simp_all add: close_handles_def)
  show "nextStartTimeRef (final (stopConversation_part000 thr f s)) = nextStartTimeRef s"
    unfolding stopConversation_part000_def using a(1)
    by (cases ?c) (simp_all add: sleep_or_idle_def)
  show "transcripts (final (stopConversation_part000 thr f s)) = transcripts s"
    unfolding stopConversation_part000_def using a(2)
    by (cases ?c) (simp_all add: sleep_or_idle_def)
qed

lemma stop_App_frame:
  "nextStartTimeRef (final (stopConversation_App thr f s)) = nextStartTimeRef s"
  "transcripts (final (stopConversation_App thr f s)) = transcripts s"
  by (simp_all add: stopConversation_App_def sleep_or_idle_def close_handles_def Let_def)

lemma start_frame:
  "nextStartTimeRef (startConversation_part000 r s) = nextStartTimeRef s"
  "transcripts (startConversation_part000 r s) = transcripts s"
  "nextStartTimeRef (startConversation_App r s) = nextStartTimeRef s"
  "transcripts (startConversation_App r s) = transcripts s"
  by (cases r, simp_all add: begin_start_def with_contexts_def fail_start_def)+

lemma small_handlers_frame:
  "nextStartTimeRef (toggleStandby b s) = nextStartTimeRef s"
  "transcripts (toggleStandby b s) = transcripts s"
  "nextStartTimeRef (final (onopen_part000 s)) = nextStartTimeRef s"
  "transcripts (final (onopen_part000 s)) = transcripts s"
  "nextStartTimeRef (final (onopen_App s)) = nextStartTimeRef s"
  "transcripts (final (onopen_App s)) = transcripts s"
  "nextStartTimeRef (onerror_part000 s) = nextStartTimeRef s"
  "transcripts (onerror_part000 s) = transcripts s"
  "nextStartTimeRef (onerror_App s) = nextStartTimeRef s"
  "transcripts (onerror_App s) = transcripts s"
  "nextStartTimeRef (onclose st s) = nextStartTimeRef s"
  "transcripts (onclose st s) = transcripts s"
  "nextStartTimeRef (onended_part000 st x s) = nextStartTimeRef s"
  "transcripts (onended_part000 st x s) = transcripts s"
  "nextStartTimeRef (onended_App st x s) = nextStartTimeRef s"
  "transcripts (onended_App st x s) = transcripts s"
  "nextStartTimeRef (onresult_part000 tr r s) = nextStartTimeRef s"
  "transcripts (onresult_part000 tr r s) = transcripts s"
  "nextStartTimeRef (onresult_App tr r s) = nextStartTimeRef s"
  "transcripts (onresult_App tr r s) = transcripts s"
  "nextStartTimeRef (remove_timer i s) = nextStartTimeRef s"
  "transcripts (remove_timer i s) = transcripts s"
  by (simp_all add: toggleStandby_def onopen_part000_def onopen_App_def onerror_part000_def
      onerror_App_def onclose_def onended_part000_def onended_App_def onresult_part000_def
      onresult_App_def remove_timer_def start_frame Let_def)

lemma callback_frame:
  "nextStartTimeRef (final (run_callback_part000 e cb s)) = nextStartTimeRef s"
  "transcripts (final (run_callback_part000 e cb s)) = transcripts s"
  "nextStartTimeRef (final (run_callback_App e cb s)) = nextStartTimeRef s"
  "transcripts (final (run_callback_App e cb s)) = transcripts s"
  by (cases cb, simp_all add: stop_part000_frame)+













subsection \<open>Roles in the transcript\<close>

lemma turn_all_model:
  "all_model (transcripts s) \<Longrightarrow> all_model (transcripts (final (turnComplete_block e m s)))"
  by (simp add: turnComplete_block_def Let_def all_model_def)

lemma onmessage_App_all_model:
  assumes "all_model (transcripts s)"
  shows "all_model (transcripts (final (onmessage_App e m s)))"
proof -
  have "all_model (transcripts (final (transcription_block_App m s)))"
    using assms by (simp add: transcription_App_frame)
  then show ?thesis
    by (simp add: onmessage_App_after_turn tail_App_keeps turn_all_model)
qed

lemma onmessage_part000_all_model:
  assumes "all_model (transcripts s)"
  shows "all_model (transcripts (final (onmessage_part000 e m s)))"
proof (cases "modelTurn m = NoParts")
  case True
  with assms show ?thesis by (simp add: onmessage_part000_NoParts)
next
  case parts: False
  show ?thesis
  proof (cases "throws (transcription_block_part000 m s)")
    case True
    then obtain x s1 where t: "transcription_block_part000 m s = Throw x s1"
      by (cases "transcription_block_part000 m s") simp_all
    have "transcripts (final (transcription_block_part000 m s)) = transcripts s"
      by (rule transcription_part000_frame)
    with t assms show ?thesis by (simp add: onmessage_part000_blocks[OF parts])
  next
    case False
    have "all_model (transcripts (final (transcription_block_part000 m s)))"
      using assms by (simp add: transcription_part000_frame)
    then show ?thesis
      by (simp add: onmessage_part000_after_turn[OF parts False] tail_part000_keeps
          turn_all_model)
  qed
qed

lemma step_App_all_model:
  assumes "all_model (transcripts s)"
  shows "all_model (transcripts (final (step_App e ev s)))"
proof (cases ev)
  case (Message m)
  with onmessage_App_all_model[OF assms] show ?thesis by simp
next
  case ClearTranscripts
  then show ?thesis by (simp add: all_model_def)
qed (simp_all add: assms start_frame stop_App_frame small_handlers_frame callback_frame)

lemma step_part000_all_model:
  assumes "all_model (transcripts s)"
  shows "all_model (transcripts (final (step_part000 e ev s)))"
proof (cases ev)
  case (Message m)
  with onmessage_part000_all_model[OF assms] show ?thesis by simp
next
  case ClearTranscripts
  then show ?thesis by (simp add: all_model_def)
qed (simp_all add: assms start_frame stop_part000_frame small_handlers_frame callback_frame)

lemma run_App_all_model:
  "all_model (transcripts s) \<Longrightarrow> all_model (transcripts (run_App evs s))"
proof (induction evs arbitrary: s)
  case Nil
  then show ?case by simp
next
  case (Cons a evs)
  obtain e ev where a: "a = (e, ev)" by (cases a)
  from Cons.IH[OF step_App_all_model[OF Cons.prems]] show ?case by (simp add: a)
qed

lemma run_part000_all_model:
  "all_model (transcripts s) \<Longrightarrow> all_model (transcripts (run_part000 evs s))"
proof (induction evs arbitrary: s)
  case Nil
  then show ?case by simp
next
  case (Cons a evs)
  obtain e ev where a: "a = (e, ev)" by (cases a)
  from Cons.IH[OF step_part000_all_model[OF Cons.prems]] show ?case by (simp add: a)
qed

lemma shown_all_model: "all_model entries \<Longrightarrow> shown_translations entries = entries"
  by (simp add: all_model_def shown_translations_def list_all_iff)

lemma all_model_initial: "all_model (transcripts initial)"
  by (simp add: all_model_def initial_def)

lemma happy_message_App:
  "onmessage_App e happy_fragment initial =
     Normal (initial\<lparr>mood := HAPPY, currentOutputTranscription := ''Kumusta''\<rparr>)"
proof -
  have t: "transcription_block_App happy_fragment initial =
      Normal (append_output ''[HAPPY] Kumusta'' initial)"
    by (rule transcription_App_output) (simp add: happy_fragment_def bare_def audioData_def)
  show ?thesis
    unfolding onmessage_App_def t append_happy
    by (simp add: happy_fragment_def bare_def audioData_def turnComplete_block_def audio_block_App_def
        interrupted_block_App_def)
qed

lemma happy_message_part000:
  "onmessage_part000 e happy_fragment initial =
     Normal (initial\<lparr>mood := HAPPY, currentOutputTranscription := ''Kumusta''\<rparr>)"
proof -
  have t: "transcription_block_part000 happy_fragment initial =
      Normal (append_output ''[HAPPY] Kumusta'' initial)"
    by (rule transcription_part000_output) (simp add: happy_fragment_def bare_def audioData_def)
  show ?thesis
    unfolding onmessage_part000_def t append_happy
    by (simp add: happy_fragment_def bare_def audioData_def turnComplete_block_def audio_block_part000_def
        interrupted_block_part000_def)
qed

lemma one_turn_App:
  "transcripts (run_App one_turn initial) =
     [\<lparr>role = Model, entryText = ''Kumusta'', timestamp = 1700000000000\<rparr>]"
  unfolding one_turn_def
  by (simp add: happy_message_App)
     (simp add: onmessage_App_def turn_end_def bare_def audioData_def transcription_block_App_def output_arm_App_def
      input_arm_App_def
        turnComplete_block_def audio_block_App_def interrupted_block_App_def
        initial_def quiet_env_def trim_def is_ws_def)

lemma one_turn_part000:
  "transcripts (run_part000 one_turn initial) =
     [\<lparr>role = Model, entryText = ''Kumusta'', timestamp = 1700000000000\<rparr>]"
  unfolding one_turn_def
  by (simp add: happy_message_part000)
     (simp add: onmessage_part000_def turn_end_def bare_def audioData_def transcription_block_part000_def output_arm_part000_def
      input_arm_part000_def
        turnComplete_block_def audio_block_part000_def interrupted_block_part000_def
        initial_def quiet_env_def trim_def is_ws_def)

subsection \<open>The farewell phrase and the timers\<close>

lemma str_includes_iff: "str_includes s pat \<longleftrightarrow> (\<exists>a b. s = a @ pat @ b)"
proof (induction s)
  case Nil
  then show ?case by simp
next
  case (Cons c cs)
  show ?case
  proof
    assume "str_includes (c # cs) pat"
    then consider "prefix pat (c # cs)" | "str_includes cs pat" by auto
    then show "\<exists>a b. c # cs = a @ pat @ b"
    proof cases
      case 1
      then obtain b where "c # cs = pat @ b" by (auto simp: prefix_def)
      then have "c # cs = [] @ pat @ b" by simp
      then show ?thesis by blast
    next
      case 2
      with Cons.IH obtain a b where "cs = a @ pat @ b" by blast
      then have "c # cs = (c # a) @ pat @ b" by simp
      then show ?thesis by blast
    qed
  next
    assume "\<exists>a b. c # cs = a @ pat @ b"
    then obtain a b where ab: "c # cs = a @ pat @ b" by blast
    show "str_includes (c # cs) pat"
    proof (cases a)
      case Nil
      with ab have "prefix pat (c # cs)" by (simp add: prefix_def)
      then show ?thesis by simp
    next
      case (Cons x a')
      with ab have "cs = a' @ pat @ b" by simp
      with Cons.IH have "str_includes cs pat" by blast
      then show ?thesis by simp
    qed
  qed
qed

lemma tail_part000_timers:
  "timers (final (seq (audio_block_part000 e m s) (interrupted_block_part000 e m))) = timers s"
proof -
  have a: "timers (final (audio_block_part000 e m s)) = timers s"
    by (simp add: audio_block_part000_def schedule_def Let_def split: option.splits)
  have i: "timers (final (interrupted_block_part000 e m s1)) = timers s1" for s1
    unfolding interrupted_block_part000_def
    using forEach_stop_fields(14)[of "stopThrows e" "sourcesRef s1" s1]
    by (cases "forEach_stop (stopThrows e) (sourcesRef s1) s1") simp_all
  from a show ?thesis by (cases "audio_block_part000 e m s") (simp_all add: i)
qed

lemma farewell_block:
  assumes "outputTranscription m = None" "inputTranscription m = Some (Some frag)"
    "is_farewell frag"
  shows "transcription_block_part000 m s =
     Normal (s\<lparr>currentInputTranscription := currentInputTranscription s @ frag,
               state := LISTENING,
               timers := timers s @ [(3000, ForcedSleepStop)]\<rparr>)"
  using assms by (simp add: transcription_block_part000_def output_arm_part000_def
      input_arm_part000_def Let_def)

lemma farewell_message_timers:
  assumes "outputTranscription m = None" "inputTranscription m = Some (Some frag)"
    "is_farewell frag" and parts: "modelTurn m \<noteq> NoParts"
  shows "timers (final (onmessage_part000 e m s)) = timers s @ [(3000, ForcedSleepStop)]"
proof -
  have nt: "\<not> throws (transcription_block_part000 m s)"
    by (simp add: farewell_block[OF assms(1-3)])
  show ?thesis
    by (simp add: onmessage_part000_after_turn[OF parts nt] tail_part000_timers turn_frame
        farewell_block[OF assms(1-3)])
qed

lemma is_farewell_example: "is_farewell ''Thank you Salin!''"
  by (simp add: is_farewell_def toLowerCase_def lower_char_def is_upper_def)

lemma lower_farewell: "toLowerCase ''Thank you Salin!'' = ''thank you salin!''"
  by (simp add: toLowerCase_def lower_char_def is_upper_def)

lemma farewell_playing:
  "onmessage_part000 quiet_env farewell playing = Normal heard_farewell"
proof -
  have t: "transcription_block_part000 farewell playing =
      Normal (playing\<lparr>currentInputTranscription :=
                currentInputTranscription playing @ ''Thank you Salin!'',
              state := LISTENING,
              timers := timers playing @ [(3000, ForcedSleepStop)]\<rparr>)"
    by (rule farewell_block[OF _ _ is_farewell_example])
      (simp_all add: farewell_def bare_def audioData_def)
  show ?thesis
    unfolding onmessage_part000_def t
    by (simp add: farewell_def bare_def audioData_def turnComplete_block_def audio_block_part000_def
        interrupted_block_part000_def heard_farewell_def playing_def initial_def)
qed

lemma forced_sleep_heard:
  "step_part000 quiet_env (Timeout 0) heard_farewell = Normal asleep"
  by (simp add: heard_farewell_def playing_def initial_def remove_timer_def
      stopConversation_part000_def close_handles_def sleep_or_idle_def asleep_def)

lemma wake_asleep:
  "step_part000 quiet_env (Timeout 0) asleep =
     Normal (initial\<lparr>currentInputTranscription := ''Thank you Salin!''\<rparr>)"
  by (simp add: asleep_def initial_def remove_timer_def)

subsection \<open>Interruption and stop, in closed form\<close>

lemma forEach_try_stop_eq: "forEach_try_stop thr xs t = t\<lparr>stopCalls := stopCalls t @ xs\<rparr>"
  by (induction xs arbitrary: t) simp_all

lemma stop_App_Normal:
  "stopConversation_App thr forceSleep s =
     Normal (sleep_or_idle forceSleep
       ((close_handles s)\<lparr>stopCalls := stopCalls s @ sourcesRef s, sourcesRef := []\<rparr>))"
  by (simp add: stopConversation_App_def forEach_try_stop_eq close_handles_def)

lemma run_part000_append:
  "run_part000 (xs @ ys) s = run_part000 ys (run_part000 xs s)"
  by (induction xs arbitrary: s) auto

lemma interrupted_App_Normal:
  "interrupted m \<Longrightarrow>
   interrupted_block_App e m s =
     Normal (s\<lparr>stopCalls := stopCalls s @ sourcesRef s, sourcesRef := [],
               nextStartTimeRef := 0, state := LISTENING\<rparr>)"
  by (simp add: interrupted_block_App_def forEach_try_stop_eq)

lemma interrupted_part000_Normal:
  "interrupted m \<Longrightarrow> \<not> list_ex (stopThrows e) (sourcesRef s) \<Longrightarrow>
   interrupted_block_part000 e m s =
     Normal (s\<lparr>stopCalls := stopCalls s @ sourcesRef s, sourcesRef := [],
               nextStartTimeRef := 0, state := LISTENING, mood := NEUTRAL\<rparr>)"
  by (simp add: interrupted_block_part000_def forEach_stop_Normal)

lemma stop_part000_throws:
  "throws (stopConversation_part000 thr forceSleep s) = list_ex thr (sourcesRef s)"
proof -
  let ?c = "forEach_stop thr (sourcesRef s) (close_handles s)"
  have "throws ?c = list_ex thr (sourcesRef s)" by (rule forEach_stop_throws)
  then show ?thesis
    unfolding stopConversation_part000_def
    by (cases ?c) (simp_all add: forEach_stop_no_Return)
qed

lemma interrupted_part000_throws:
  "throws (interrupted_block_part000 e m s) =
     (interrupted m \<and> list_ex (stopThrows e) (sourcesRef s))"
proof (cases "interrupted m")
  case False
  then show ?thesis by (simp add: interrupted_block_part000_def)
next
  case True
  let ?c = "forEach_stop (stopThrows e) (sourcesRef s) s"
  have "throws ?c = list_ex (stopThrows e) (sourcesRef s)" by (rule forEach_stop_throws)
  with True show ?thesis
    unfolding interrupted_block_part000_def
    by (cases ?c) (simp_all add: forEach_stop_no_Return)
qed

lemma interruption_speaking_App:
  "onmessage_App e interruption speaking_happy =
     Normal (speaking_happy\<lparr>stopCalls := [1, 2], sourcesRef := [], nextStartTimeRef := 0,
               state := LISTENING\<rparr>)"
  by (simp add: onmessage_App_def interruption_def bare_def audioData_def transcription_block_App_def output_arm_App_def
      input_arm_App_def
      turnComplete_block_def audio_block_App_def interrupted_block_App_def
      speaking_happy_def playing_def initial_def)

lemma interruption_speaking_part000:
  "onmessage_part000 quiet_env interruption speaking_happy =
     Normal (speaking_happy\<lparr>stopCalls := [1, 2], sourcesRef := [], nextStartTimeRef := 0,
               state := LISTENING, mood := NEUTRAL\<rparr>)"
  by (simp add: onmessage_part000_def interruption_def bare_def audioData_def
      transcription_block_part000_def output_arm_part000_def
      input_arm_part000_def turnComplete_block_def audio_block_part000_def
      interrupted_block_part000_def speaking_happy_def playing_def initial_def quiet_env_def
      never_def)

lemma stop_part000_sleep:
  "state (final (stopConversation_part000 thr True s)) =
     (if list_ex thr (sourcesRef s) then state s else SLEEP)"
  "timers (final (stopConversation_part000 thr True s)) =
     (if list_ex thr (sourcesRef s) then timers s else timers s @ [(5000, WakeFromSleep)])"
proof -
  let ?c = "forEach_stop thr (sourcesRef s) (close_handles s)"
  have t: "throws ?c = list_ex thr (sourcesRef s)" by (rule forEach_stop_throws)
  have f: "state (final ?c) = state s" "timers (final ?c) = timers s"
    by (simp_all add: close_handles_def)
  show "state (final (stopConversation_part000 thr True s)) =
     (if list_ex thr (sourcesRef s) then state s else SLEEP)"
    unfolding stopConversation_part000_def using t f
    by (cases ?c) (simp_all add: sleep_or_idle_def forEach_stop_no_Return)
  show "timers (final (stopConversation_part000 thr True s)) =
     (if list_ex thr (sourcesRef s) then timers s else timers s @ [(5000, WakeFromSleep)])"
    unfolding stopConversation_part000_def using t f
    by (cases ?c) (simp_all add: sleep_or_idle_def forEach_stop_no_Return)
qed

lemma farewell_message_no_timer:
  assumes "\<not> is_farewell frag"
  shows "timers (final (onmessage_part000 e
            (m\<lparr>outputTranscription := None, inputTranscription := Some (Some frag)\<rparr>) s))
         = timers s"
proof (cases "modelTurn m = NoParts")
  case True
  then show ?thesis by (simp add: onmessage_part000_NoParts)
next
  case False
  let ?m = "m\<lparr>outputTranscription := None, inputTranscription := Some (Some frag)\<rparr>"
  from False have parts: "modelTurn ?m \<noteq> NoParts" by simp
  have b: "transcription_block_part000 ?m s =
     Normal (s\<lparr>currentInputTranscription := currentInputTranscription s @ frag,
               state := LISTENING\<rparr>)"
    using assms by (simp add: transcription_block_part000_def input_arm_part000_def Let_def)
  then have nt: "\<not> throws (transcription_block_part000 ?m s)" by simp
  show ?thesis
    by (simp add: onmessage_part000_after_turn[OF parts nt] tail_part000_timers turn_frame b)
qed

section \<open>The claims\<close>

subsection \<open>Gapless scheduling\<close>

text \<open>
  Claim C1. With the playback context open, a message that carries a decoded chunk
  and no interruption starts the chunk's node at the maximum of the cursor and the clock,
  and leaves the cursor at that start time plus the chunk's duration; this holds
  for both versions (for part_000 when the transcription block of the message does not
  throw). Over a sequence of chunk messages the start times both versions log are the
  ones the specification's scheduler computes. In these logged start times, whenever
  a chunk is scheduled no later than the end of the chunk before it, it starts exactly
  at that end, the start of the chunk before plus its duration; and with a
  non-negative duration the start times do not decrease.
\<close>

theorem playback_schedule_gapless:
  assumes "outputAudioContextRef s"
  shows
    "(\<forall>m c. audioData m = Some c \<and> \<not> interrupted m \<longrightarrow>
        started (final (onmessage_App e m s)) =
          started s @ [(node c, max (nextStartTimeRef s) (currentTime e))]
        \<and> nextStartTimeRef (final (onmessage_App e m s)) =
            max (nextStartTimeRef s) (currentTime e) + duration c
        \<and> (\<not> throws (transcription_block_part000 m s) \<longrightarrow>
            started (final (onmessage_part000 e m s)) =
              started s @ [(node c, max (nextStartTimeRef s) (currentTime e))]
            \<and> nextStartTimeRef (final (onmessage_part000 e m s)) =
                max (nextStartTimeRef s) (currentTime e) + duration c))
     \<and> new_starts s (run_App (chunk_events e tcs) s) =
         spec_start_times (nextStartTimeRef s) tcs
     \<and> new_starts s (run_part000 (chunk_events e tcs) s) =
         spec_start_times (nextStartTimeRef s) tcs
     \<and> (\<forall>st. st = new_starts s (run_App (chunk_events e tcs) s)
             \<or> st = new_starts s (run_part000 (chunk_events e tcs) s) \<longrightarrow>
          (\<forall>i. Suc i < length tcs \<longrightarrow>
             (fst (tcs ! Suc i) \<le> st ! i + duration (snd (tcs ! i))
                \<longrightarrow> st ! Suc i = st ! i + duration (snd (tcs ! i)))
             \<and> (0 \<le> duration (snd (tcs ! i)) \<longrightarrow> st ! i \<le> st ! Suc i)))"
proof -
  have one: "\<forall>m c. audioData m = Some c \<and> \<not> interrupted m \<longrightarrow>
        started (final (onmessage_App e m s)) =
          started s @ [(node c, max (nextStartTimeRef s) (currentTime e))]
        \<and> nextStartTimeRef (final (onmessage_App e m s)) =
            max (nextStartTimeRef s) (currentTime e) + duration c
        \<and> (\<not> throws (transcription_block_part000 m s) \<longrightarrow>
            started (final (onmessage_part000 e m s)) =
              started s @ [(node c, max (nextStartTimeRef s) (currentTime e))]
            \<and> nextStartTimeRef (final (onmessage_part000 e m s)) =
                max (nextStartTimeRef s) (currentTime e) + duration c)"
    using schedule_one_App[OF _ _ assms] schedule_one_part000[OF _ _ assms] by blast
  have a: "new_starts s (run_App (chunk_events e tcs) s) =
         spec_start_times (nextStartTimeRef s) tcs"
    by (rule new_starts_zip[OF run_chunks_App[OF assms]]) simp
  have p: "new_starts s (run_part000 (chunk_events e tcs) s) =
         spec_start_times (nextStartTimeRef s) tcs"
    by (rule new_starts_zip[OF run_chunks_part000[OF assms]]) simp
  have g: "\<forall>i. Suc i < length tcs \<longrightarrow>
          (fst (tcs ! Suc i)
             \<le> spec_start_times (nextStartTimeRef s) tcs ! i + duration (snd (tcs ! i))
           \<longrightarrow> spec_start_times (nextStartTimeRef s) tcs ! Suc i =
                 spec_start_times (nextStartTimeRef s) tcs ! i + duration (snd (tcs ! i)))
          \<and> (0 \<le> duration (snd (tcs ! i))
             \<longrightarrow> spec_start_times (nextStartTimeRef s) tcs ! i
                   \<le> spec_start_times (nextStartTimeRef s) tcs ! Suc i)"
    by (auto simp add: spec_start_times_Suc)
  have g': "\<forall>st. st = new_starts s (run_App (chunk_events e tcs) s)
             \<or> st = new_starts s (run_part000 (chunk_events e tcs) s) \<longrightarrow>
          (\<forall>i. Suc i < length tcs \<longrightarrow>
             (fst (tcs ! Suc i) \<le> st ! i + duration (snd (tcs ! i))
                \<longrightarrow> st ! Suc i = st ! i + duration (snd (tcs ! i)))
             \<and> (0 \<le> duration (snd (tcs ! i)) \<longrightarrow> st ! i \<le> st ! Suc i))"
    unfolding a p using g by blast
  from one a p g' show ?thesis by blast
qed

text \<open>Three chunks of 2, 3 and 1 seconds arrive at 0.5, 1 and 4 on the clock: they start
  at 0.5, 2.5 and 5.5.\<close>

theorem playback_schedule_gapless_witness:
  "outputAudioContextRef playing
   \<and> audioData (chunk_message \<lparr>node = 1, duration = 2\<rparr>) = Some \<lparr>node = 1, duration = 2\<rparr>
   \<and> \<not> interrupted (chunk_message \<lparr>node = 1, duration = 2\<rparr>)
   \<and> started (final (onmessage_App (quiet_env\<lparr>currentTime := 1 / 2\<rparr>)
         (chunk_message \<lparr>node = 1, duration = 2\<rparr>) playing)) = [(1, 1 / 2)]
   \<and> nextStartTimeRef (final (onmessage_App (quiet_env\<lparr>currentTime := 1 / 2\<rparr>)
         (chunk_message \<lparr>node = 1, duration = 2\<rparr>) playing)) = 5 / 2
   \<and> new_starts playing (run_App (chunk_events quiet_env three_chunks) playing)
       = [1 / 2, 5 / 2, 11 / 2]
   \<and> new_starts playing (run_part000 (chunk_events quiet_env three_chunks) playing)
       = [1 / 2, 5 / 2, 11 / 2]
   \<and> Suc 0 < length three_chunks
   \<and> fst (three_chunks ! Suc 0) \<le> (1 / 2 :: real) + duration (snd (three_chunks ! 0))
   \<and> new_starts playing (run_App (chunk_events quiet_env three_chunks) playing) ! Suc 0
       = new_starts playing (run_App (chunk_events quiet_env three_chunks) playing) ! 0
         + duration (snd (three_chunks ! 0))"
proof -
  let ?c = "\<lparr>node = 1, duration = 2\<rparr> :: chunk"
  let ?e = "quiet_env\<lparr>currentTime := 1 / 2\<rparr>"
  have c: "outputAudioContextRef playing" by (simp add: playing_def initial_def)
  have n: "nextStartTimeRef playing = 0" "started playing = []"
    by (simp_all add: playing_def initial_def)
  have m: "audioData (chunk_message ?c) = Some ?c" "\<not> interrupted (chunk_message ?c)"
    by (simp_all add: chunk_message_def bare_def audioData_def)
  have t: "Suc 0 < length three_chunks"
    "fst (three_chunks ! Suc 0) \<le> (1 / 2 :: real) + duration (snd (three_chunks ! 0))"
    by (simp_all add: three_chunks_def)
  note one = playback_schedule_gapless[OF c, of ?e three_chunks, THEN conjunct1,
      rule_format, of "chunk_message ?c" ?c]
  note runs = playback_schedule_gapless[OF c, of quiet_env three_chunks, THEN conjunct2]
  have o: "started (final (onmessage_App ?e (chunk_message ?c) playing)) = [(1, 1 / 2)]"
    "nextStartTimeRef (final (onmessage_App ?e (chunk_message ?c) playing)) = 5 / 2"
    using one m by (simp_all add: n)
  have a: "new_starts playing (run_App (chunk_events quiet_env three_chunks) playing)
       = [1 / 2, 5 / 2, 11 / 2]"
    using runs[THEN conjunct1] by (simp add: n three_chunks_spec)
  have p: "new_starts playing (run_part000 (chunk_events quiet_env three_chunks) playing)
       = [1 / 2, 5 / 2, 11 / 2]"
    using runs[THEN conjunct2, THEN conjunct1] by (simp add: n three_chunks_spec)
  have g: "new_starts playing (run_App (chunk_events quiet_env three_chunks) playing) ! Suc 0
       = new_starts playing (run_App (chunk_events quiet_env three_chunks) playing) ! 0
         + duration (snd (three_chunks ! 0))"
    using runs[THEN conjunct2, THEN conjunct2, rule_format,
        of "new_starts playing (run_App (chunk_events quiet_env three_chunks) playing)" 0] t
    by (simp add: a)
  from c m o a p t g show ?thesis by blast
qed

subsection \<open>The cursor between resets\<close>




subsection \<open>Interruption\<close>

text \<open>
  Claim C3. From every state, the interruption block of App.tsx calls \<open>stop()\<close> on every
  live source, empties the live set, sets the cursor to 0 and the state to \<open>LISTENING\<close>,
  and changes nothing else; the block of part_000, when no \<open>stop()\<close> throws, does the
  same and resets the mood to \<open>NEUTRAL\<close> (line 203). So at a session that is speaking in
  a happy mood with two live sources and the cursor at 7, App.tsx leaves the mood
  \<open>HAPPY\<close> and part_000 makes it \<open>NEUTRAL\<close>; in both, a chunk that arrives afterwards
  with the clock at 9 starts at \<open>max 0 9\<close>.
\<close>

theorem interruption_keeps_mood_in_App:
  "interrupted_block_App e (m\<lparr>interrupted := True\<rparr>) s =
       Normal (s\<lparr>stopCalls := stopCalls s @ sourcesRef s, sourcesRef := [],
                 nextStartTimeRef := 0, state := LISTENING\<rparr>)
   \<and> interrupted_block_part000 (e\<lparr>stopThrows := never\<rparr>) (m\<lparr>interrupted := True\<rparr>) s =
       Normal (s\<lparr>stopCalls := stopCalls s @ sourcesRef s, sourcesRef := [],
                 nextStartTimeRef := 0, state := LISTENING, mood := NEUTRAL\<rparr>)
   \<and> mood speaking_happy = HAPPY
   \<and> onmessage_App quiet_env interruption speaking_happy =
       Normal (speaking_happy\<lparr>stopCalls := [1, 2], sourcesRef := [], nextStartTimeRef := 0,
                 state := LISTENING\<rparr>)
   \<and> mood (final (onmessage_App quiet_env interruption speaking_happy)) = HAPPY
   \<and> onmessage_part000 quiet_env interruption speaking_happy =
       Normal (speaking_happy\<lparr>stopCalls := [1, 2], sourcesRef := [], nextStartTimeRef := 0,
                 state := LISTENING, mood := NEUTRAL\<rparr>)
   \<and> mood (final (onmessage_part000 quiet_env interruption speaking_happy)) = NEUTRAL
   \<and> started (final (onmessage_App (quiet_env\<lparr>currentTime := 9\<rparr>)
         (chunk_message \<lparr>node = 3, duration = 1\<rparr>)
         (final (onmessage_App quiet_env interruption speaking_happy))))
       = [(1, 0), (2, 3), (3, max 0 9)]
   \<and> started (final (onmessage_part000 (quiet_env\<lparr>currentTime := 9\<rparr>)
         (chunk_message \<lparr>node = 3, duration = 1\<rparr>)
         (final (onmessage_part000 quiet_env interruption speaking_happy))))
       = [(1, 0), (2, 3), (3, max 0 9)]"
proof -
  let ?e9 = "quiet_env\<lparr>currentTime := 9\<rparr>"
  let ?c = "\<lparr>node = 3, duration = 1\<rparr>"
  let ?a = "speaking_happy\<lparr>stopCalls := [1, 2], sourcesRef := [], nextStartTimeRef := 0,
                 state := LISTENING\<rparr>"
  let ?p = "speaking_happy\<lparr>stopCalls := [1, 2], sourcesRef := [], nextStartTimeRef := 0,
                 state := LISTENING, mood := NEUTRAL\<rparr>"
  have ga: "interrupted_block_App e (m\<lparr>interrupted := True\<rparr>) s =
       Normal (s\<lparr>stopCalls := stopCalls s @ sourcesRef s, sourcesRef := [],
                 nextStartTimeRef := 0, state := LISTENING\<rparr>)"
    by (rule interrupted_App_Normal) simp
  have "\<not> list_ex never xs" for xs
    by (induction xs) (simp_all add: never_def)
  then have gp: "interrupted_block_part000 (e\<lparr>stopThrows := never\<rparr>)
         (m\<lparr>interrupted := True\<rparr>) s =
       Normal (s\<lparr>stopCalls := stopCalls s @ sourcesRef s, sourcesRef := [],
                 nextStartTimeRef := 0, state := LISTENING, mood := NEUTRAL\<rparr>)"
    by (intro interrupted_part000_Normal) simp_all
  have h: "mood speaking_happy = HAPPY" by (simp add: speaking_happy_def)
  have a: "onmessage_App quiet_env interruption speaking_happy = Normal ?a"
    by (rule interruption_speaking_App)
  have p: "onmessage_part000 quiet_env interruption speaking_happy = Normal ?p"
    by (rule interruption_speaking_part000)
  have ma: "mood (final (onmessage_App quiet_env interruption speaking_happy)) = HAPPY"
    unfolding a by (simp add: h)
  have mp: "mood (final (onmessage_part000 quiet_env interruption speaking_happy)) = NEUTRAL"
    unfolding p by simp
  have ca: "outputAudioContextRef ?a" and cp: "outputAudioContextRef ?p"
    by (simp_all add: speaking_happy_def playing_def initial_def)
  have sa: "started (final (onmessage_App ?e9 (chunk_message ?c)
         (final (onmessage_App quiet_env interruption speaking_happy))))
       = [(1, 0), (2, 3), (3, max 0 9)]"
    unfolding a final.simps chunk_message_App[OF ca]
    by (simp add: schedule_fields speaking_happy_def)
  have sp: "started (final (onmessage_part000 ?e9 (chunk_message ?c)
         (final (onmessage_part000 quiet_env interruption speaking_happy))))
       = [(1, 0), (2, 3), (3, max 0 9)]"
    unfolding p final.simps chunk_message_part000[OF cp]
    by (simp add: schedule_fields speaking_happy_def)
  from ga gp h a p ma mp sa sp show ?thesis by blast
qed

subsection \<open>Turn completion\<close>

text \<open>
  Claim C4. The turn-complete block of a message with the turn-complete flag always
  ends normally: when the output accumulator is all white space (its trimmed text is
  empty) the transcript is left as it was, otherwise exactly one entry is appended,
  with role \<open>Model\<close>, the trimmed accumulator as its text and \<open>Date.now()\<close> as its
  timestamp; in both cases the input and the output accumulator are empty afterwards.
  The handler of App.tsx always runs that block, on the accumulators as the
  transcription block of the message left them, and both accumulators are empty at its
  end. The handler of part_000 throws before the block when the message has a model
  turn without parts (line 133) or a transcription whose text is absent (lines 138
  and 150): then no entry is appended and the output accumulator is kept; otherwise it
  runs the block as App.tsx does. With \<^verbatim>\<open>Kumusta\<close> accumulated and a turn-complete message
  that has an output transcription without text, or a model turn without parts,
  part_000 throws and keeps the accumulator, and App.tsx appends the entry.
\<close>

theorem turn_complete_unguarded_in_part000:
  "(\<exists>r. turnComplete_block e (m\<lparr>turnComplete := True\<rparr>) s = Normal r
      \<and> transcripts r =
          (if list_all is_ws (currentOutputTranscription s) then transcripts s
           else transcripts s @
             [\<lparr>role = Model, entryText = trim (currentOutputTranscription s),
               timestamp = dateNow e\<rparr>])
      \<and> currentInputTranscription r = [] \<and> currentOutputTranscription r = [])
   \<and> list_all is_ws (currentOutputTranscription s) = (trim (currentOutputTranscription s) = [])
   \<and> transcripts (final (onmessage_App e (m\<lparr>turnComplete := True\<rparr>) s)) =
       transcripts (final (turnComplete_block e (m\<lparr>turnComplete := True\<rparr>)
         (final (transcription_block_App m s))))
   \<and> currentInputTranscription (final (onmessage_App e (m\<lparr>turnComplete := True\<rparr>) s)) = []
   \<and> currentOutputTranscription (final (onmessage_App e (m\<lparr>turnComplete := True\<rparr>) s)) = []
   \<and> throws (transcription_block_part000 m s) =
       (outputTranscription m = Some None
        \<or> outputTranscription m = None \<and> inputTranscription m = Some None)
   \<and> transcripts (final (onmessage_part000 e (m\<lparr>turnComplete := True\<rparr>) s)) =
       (if modelTurn m = NoParts \<or> throws (transcription_block_part000 m s)
        then transcripts s
        else transcripts (final (turnComplete_block e (m\<lparr>turnComplete := True\<rparr>)
               (final (transcription_block_part000 m s)))))
   \<and> currentOutputTranscription (final (onmessage_part000 e (m\<lparr>turnComplete := True\<rparr>) s)) =
       (if modelTurn m = NoParts \<or> throws (transcription_block_part000 m s)
        then currentOutputTranscription s else [])
   \<and> onmessage_part000 quiet_env (turn_end\<lparr>outputTranscription := Some None\<rparr>)
         (playing\<lparr>currentOutputTranscription := ''Kumusta''\<rparr>) =
       Throw TypeError (playing\<lparr>currentOutputTranscription := ''Kumusta''\<rparr>)
   \<and> onmessage_part000 quiet_env (turn_end\<lparr>modelTurn := NoParts\<rparr>)
         (playing\<lparr>currentOutputTranscription := ''Kumusta''\<rparr>) =
       Throw TypeError (playing\<lparr>currentOutputTranscription := ''Kumusta''\<rparr>)
   \<and> onmessage_App quiet_env (turn_end\<lparr>outputTranscription := Some None\<rparr>)
         (playing\<lparr>currentOutputTranscription := ''Kumusta''\<rparr>) =
       Normal (playing\<lparr>transcripts :=
                 [\<lparr>role = Model, entryText = ''Kumusta'', timestamp = 1700000000000\<rparr>]\<rparr>)
   \<and> onmessage_App quiet_env (turn_end\<lparr>modelTurn := NoParts\<rparr>)
         (playing\<lparr>currentOutputTranscription := ''Kumusta''\<rparr>) =
       Normal (playing\<lparr>transcripts :=
                 [\<lparr>role = Model, entryText = ''Kumusta'', timestamp = 1700000000000\<rparr>]\<rparr>)"
proof -
  let ?m = "m\<lparr>turnComplete := True\<rparr>"
  have tc: "turnComplete ?m" by simp
  have block: "\<exists>r. turnComplete_block e ?m s = Normal r
      \<and> transcripts r =
          (if list_all is_ws (currentOutputTranscription s) then transcripts s
           else transcripts s @
             [\<lparr>role = Model, entryText = trim (currentOutputTranscription s),
               timestamp = dateNow e\<rparr>])
      \<and> currentInputTranscription r = [] \<and> currentOutputTranscription r = []"
    using turn_block[OF tc, of e s] turnComplete_block_Normal[of e ?m s]
    by (intro exI[of _ "final (turnComplete_block e ?m s)"]) simp
  have ws: "list_all is_ws (currentOutputTranscription s)
      = (trim (currentOutputTranscription s) = [])"
    by (simp add: trim_Nil_iff)
  have tA: "transcription_block_App ?m s = transcription_block_App m s"
    by (simp add: transcription_block_App_def split: option.splits)
  have tP: "transcription_block_part000 ?m s = transcription_block_part000 m s"
    by (simp add: transcription_block_part000_def split: option.splits)
  have app: "transcripts (final (onmessage_App e ?m s)) =
       transcripts (final (turnComplete_block e ?m (final (transcription_block_App m s))))"
    "currentInputTranscription (final (onmessage_App e ?m s)) = []"
    "currentOutputTranscription (final (onmessage_App e ?m s)) = []"
    by (simp_all add: onmessage_App_after_turn tail_App_keeps turn_block[OF tc] tA)
  have thr: "throws (transcription_block_part000 m s) =
       (outputTranscription m = Some None
        \<or> outputTranscription m = None \<and> inputTranscription m = Some None)"
    by (simp add: transcription_block_part000_def output_arm_part000_def
        input_arm_part000_def Let_def split: option.splits)
  have p: "transcripts (final (onmessage_part000 e ?m s)) =
       (if modelTurn m = NoParts \<or> throws (transcription_block_part000 m s)
        then transcripts s
        else transcripts (final (turnComplete_block e ?m
               (final (transcription_block_part000 m s)))))
     \<and> currentOutputTranscription (final (onmessage_part000 e ?m s)) =
       (if modelTurn m = NoParts \<or> throws (transcription_block_part000 m s)
        then currentOutputTranscription s else [])"
  proof (cases "modelTurn m = NoParts")
    case True
    then show ?thesis by (simp add: onmessage_part000_NoParts)
  next
    case parts: False
    then have parts': "modelTurn ?m \<noteq> NoParts" by simp
    show ?thesis
    proof (cases "throws (transcription_block_part000 m s)")
      case True
      then obtain x s1 where t: "transcription_block_part000 ?m s = Throw x s1"
        unfolding tP by (cases "transcription_block_part000 m s") simp_all
      have "transcripts (final (transcription_block_part000 ?m s)) = transcripts s"
        "currentOutputTranscription (final (transcription_block_part000 ?m s))
           = currentOutputTranscription s"
        using True unfolding tP
        by (auto simp add: transcription_block_part000_def output_arm_part000_def
            input_arm_part000_def Let_def split: option.splits if_splits)
      with t True parts show ?thesis
        by (simp add: onmessage_part000_blocks[OF parts'])
    next
      case False
      then have nt: "\<not> throws (transcription_block_part000 ?m s)" by (simp add: tP)
      from False parts show ?thesis
        by (simp add: onmessage_part000_after_turn[OF parts' nt] tail_part000_keeps
            turn_block[OF tc] tP)
    qed
  qed
  have c1: "onmessage_part000 quiet_env (turn_end\<lparr>outputTranscription := Some None\<rparr>)
         (playing\<lparr>currentOutputTranscription := ''Kumusta''\<rparr>) =
       Throw TypeError (playing\<lparr>currentOutputTranscription := ''Kumusta''\<rparr>)"
    by (simp add: onmessage_part000_def turn_end_def bare_def
        transcription_block_part000_def output_arm_part000_def)
  have c2: "onmessage_part000 quiet_env (turn_end\<lparr>modelTurn := NoParts\<rparr>)
         (playing\<lparr>currentOutputTranscription := ''Kumusta''\<rparr>) =
       Throw TypeError (playing\<lparr>currentOutputTranscription := ''Kumusta''\<rparr>)"
    by (simp add: onmessage_part000_def)
  have c3: "onmessage_App quiet_env (turn_end\<lparr>outputTranscription := Some None\<rparr>)
         (playing\<lparr>currentOutputTranscription := ''Kumusta''\<rparr>) =
       Normal (playing\<lparr>transcripts :=
                 [\<lparr>role = Model, entryText = ''Kumusta'', timestamp = 1700000000000\<rparr>]\<rparr>)"
    by (simp add: onmessage_App_def turn_end_def bare_def audioData_def
        transcription_block_App_def output_arm_App_def input_arm_App_def
        turnComplete_block_def audio_block_App_def interrupted_block_App_def
        playing_def initial_def quiet_env_def trim_def is_ws_def)
  have c4: "onmessage_App quiet_env (turn_end\<lparr>modelTurn := NoParts\<rparr>)
         (playing\<lparr>currentOutputTranscription := ''Kumusta''\<rparr>) =
       Normal (playing\<lparr>transcripts :=
                 [\<lparr>role = Model, entryText = ''Kumusta'', timestamp = 1700000000000\<rparr>]\<rparr>)"
    by (simp add: onmessage_App_def turn_end_def bare_def audioData_def
        transcription_block_App_def output_arm_App_def input_arm_App_def
        turnComplete_block_def audio_block_App_def interrupted_block_App_def
        playing_def initial_def quiet_env_def trim_def is_ws_def)
  from block ws app thr p c1 c2 c3 c4 show ?thesis by blast
qed

subsection \<open>Mood tags in output fragments\<close>

text \<open>
  Claim C5, as the code has it. The output arm handles a fragment with text alike in
  both versions. If one of the six bracketed tags occurs in it, the mood is set once, to the
  mood of the leftmost tag, and the accumulator receives the fragment without that
  occurrence of the tag, trimmed: the text before and after the tag is kept except for
  white space at the two ends of what remains. If no tag occurs, the fragment is
  appended as it is and the mood stays.
\<close>

theorem output_fragment_tag_stripped_and_trimmed:
  "output_arm_part000 (Some frag) s = Normal (append_output frag s)
   \<and> output_arm_App (Some frag) s = Normal (append_output frag s)
   \<and> (outputTranscription m = Some (Some frag) \<longrightarrow>
        transcription_block_part000 m s = Normal (append_output frag s)
        \<and> transcription_block_App m s = Normal (append_output frag s))
   \<and> (\<forall>a n d b. (n, d) \<in> set mood_names \<and> frag = a @ bracketed n @ b \<longrightarrow>
        (\<exists>pre name md post l r.
           (name, md) \<in> set mood_names \<and> frag = pre @ bracketed name @ post
           \<and> length pre \<le> length a
           \<and> append_output frag s =
               s\<lparr>mood := md,
                 currentOutputTranscription :=
                   currentOutputTranscription s @ trim (pre @ post)\<rparr>
           \<and> pre @ post = l @ trim (pre @ post) @ r
           \<and> list_all is_ws l \<and> list_all is_ws r))
   \<and> ((\<forall>a n d b. (n, d) \<in> set mood_names \<longrightarrow> frag \<noteq> a @ bracketed n @ b) \<longrightarrow>
        append_output frag s =
          s\<lparr>currentOutputTranscription := currentOutputTranscription s @ frag\<rparr>)"
proof -
  have tagged: "\<exists>pre name md post l r.
             (name, md) \<in> set mood_names \<and> frag = pre @ bracketed name @ post
             \<and> length pre \<le> length a
             \<and> append_output frag s =
                 s\<lparr>mood := md,
                   currentOutputTranscription :=
                     currentOutputTranscription s @ trim (pre @ post)\<rparr>
             \<and> pre @ post = l @ trim (pre @ post) @ r
             \<and> list_all is_ws l \<and> list_all is_ws r"
    if occ: "(n, d) \<in> set mood_names" "frag = a @ bracketed n @ b" for a n d b
  proof (cases "match_mood frag")
    case None
    from match_mood_None[OF None occ(1)] occ(2) show ?thesis by blast
  next
    case (Some r)
    obtain tag md where r: "r = (tag, md)" by (cases r)
    from match_mood_Some[OF Some[unfolded r]] obtain pre name post where
      m: "(name, md) \<in> set mood_names" "tag = bracketed name" "frag = pre @ tag @ post"
        "replace_first frag tag [] = pre @ post"
        "\<forall>a n d b. (n, d) \<in> set mood_names \<and> frag = a @ bracketed n @ b
            \<longrightarrow> length pre \<le> length a"
      by blast
    from m(5) occ have le: "length pre \<le> length a" by blast
    have ao: "append_output frag s =
        s\<lparr>mood := md,
          currentOutputTranscription := currentOutputTranscription s @ trim (pre @ post)\<rparr>"
      using Some r m(4) by (simp add: append_output_def)
    from trim_decomp[of "pre @ post"] obtain l rr where
      t: "pre @ post = l @ trim (pre @ post) @ rr" "list_all is_ws l" "list_all is_ws rr"
      by blast
    from m(1) m(3)[unfolded m(2)] le ao t show ?thesis by blast
  qed
  have untagged: "append_output frag s =
            s\<lparr>currentOutputTranscription := currentOutputTranscription s @ frag\<rparr>"
    if no: "\<forall>a n d b. (n, d) \<in> set mood_names \<longrightarrow> frag \<noteq> a @ bracketed n @ b"
  proof (cases "match_mood frag")
    case None
    then show ?thesis by (simp add: append_output_def)
  next
    case (Some r)
    obtain tag md where r: "r = (tag, md)" by (cases r)
    from match_mood_Some[OF Some[unfolded r]] no show ?thesis by blast
  qed
  have arms: "output_arm_part000 (Some frag) s = Normal (append_output frag s)"
    "output_arm_App (Some frag) s = Normal (append_output frag s)"
    by (simp_all add: output_arm_part000_def output_arm_App_def append_output_Nil)
  have blocks: "transcription_block_part000 m s = Normal (append_output frag s)
        \<and> transcription_block_App m s = Normal (append_output frag s)"
    if "outputTranscription m = Some (Some frag)"
    using transcription_part000_output[OF that] transcription_App_output[OF that] by simp
  from arms blocks tagged untagged show ?thesis by blast
qed

text \<open>The fragment \<^verbatim>\<open>[HAPPY] Kumusta\<close> sets the mood and appends \<^verbatim>\<open>Kumusta\<close>.\<close>

theorem output_fragment_tag_stripped_and_trimmed_witness:
  "outputTranscription happy_fragment = Some (Some ''[HAPPY] Kumusta'')
   \<and> transcription_block_part000 happy_fragment initial =
       Normal (initial\<lparr>mood := HAPPY, currentOutputTranscription := ''Kumusta''\<rparr>)
   \<and> transcription_block_App happy_fragment initial =
       Normal (initial\<lparr>mood := HAPPY, currentOutputTranscription := ''Kumusta''\<rparr>)"
  using output_fragment_tag_stripped_and_trimmed
      [where m = happy_fragment and frag = "''[HAPPY] Kumusta''" and s = initial]
  by (simp add: happy_fragment_def bare_def audioData_def append_happy)

text \<open>Claim C5 as stated asks for the text outside the tag verbatim. Outside the tag of
  \<^verbatim>\<open>[HAPPY] Kumusta\<close> stands a space and \<^verbatim>\<open>Kumusta\<close>; both versions append
  \<^verbatim>\<open>Kumusta\<close> without the space.\<close>

theorem outside_text_not_verbatim_counterexample:
  "''[HAPPY] Kumusta'' = [] @ bracketed ''HAPPY'' @ '' Kumusta''
   \<and> currentOutputTranscription (final (transcription_block_part000 happy_fragment initial))
       = ''Kumusta''
   \<and> currentOutputTranscription (final (transcription_block_App happy_fragment initial))
       = ''Kumusta''
   \<and> ''Kumusta'' \<noteq> currentOutputTranscription initial @ ([] @ '' Kumusta'')"
  by (simp add: happy_fragment_def bare_def audioData_def transcription_part000_output
      transcription_App_output append_happy bracketed_def)

subsection \<open>The codec's round trip\<close>

text \<open>
  Claim C6. With any conversion to an integer that moves its argument by less than
  one, decoding the encoded bytes of a sample list gives, sample by sample, the decoded
  16-bit value; the 16-bit value of a sample is its scaled and converted value clamped to
  \<open>-32768..32767\<close>, never wrapped; a sample of \<open>[-1, 1]\<close> comes back within \<open>1/32768\<close>
  of itself; a sample above 1 is encoded as 32767 and a sample below -1 as -32768.
\<close>

theorem codec_round_trip:
  assumes "rounds rnd"
  shows "decode (encode rnd xs) = map (\<lambda>x. decode_sample (encode_sample rnd x)) xs
     \<and> sint (encode_sample rnd x) = clamp16 (rnd (x * 32768))
     \<and> (- 1 \<le> x \<and> x \<le> 1 \<longrightarrow> \<bar>decode_sample (encode_sample rnd x) - x\<bar> \<le> 1 / 32768)
     \<and> (1 < x \<longrightarrow> sint (encode_sample rnd x) = 32767)
     \<and> (x < - 1 \<longrightarrow> sint (encode_sample rnd x) = - 32768)"
proof -
  let ?y = "x * 32768"
  have k: "\<bar>real_of_int (rnd ?y) - ?y\<bar> < 1"
    using assms by (simp add: rounds_def)
  have inside: "\<bar>decode_sample (encode_sample rnd x) - x\<bar> \<le> 1 / 32768"
    if x: "- 1 \<le> x" "x \<le> 1"
  proof -
    have "- 32768 \<le> ?y" "?y \<le> 32768" using x by simp_all
    with k have "\<bar>real_of_int (clamp16 (rnd ?y)) - ?y\<bar> \<le> 1"
      unfolding clamp16_def by (auto simp: max_def min_def abs_if split: if_splits)
    then have "\<bar>real_of_int (clamp16 (rnd ?y)) / 32768 - x\<bar> \<le> 1 / 32768"
      by (simp add: field_simps abs_if split: if_splits)
    then show ?thesis by (simp add: decode_sample_def sint_encode_sample)
  qed
  have above: "sint (encode_sample rnd x) = 32767" if x: "1 < x"
  proof -
    from k x have "real_of_int (rnd ?y) > 32767" by (simp add: abs_if split: if_splits)
    then have "rnd ?y > 32767" by linarith
    then show ?thesis by (simp add: sint_encode_sample clamp16_def)
  qed
  have below: "sint (encode_sample rnd x) = - 32768" if x: "x < - 1"
  proof -
    from k x have "real_of_int (rnd ?y) < - 32767" by (simp add: abs_if split: if_splits)
    then have "rnd ?y < - 32767" by linarith
    then show ?thesis by (simp add: sint_encode_sample clamp16_def)
  qed
  from inside above below show ?thesis
    by (simp add: decode_encode sint_encode_sample)
qed

text \<open>With \<open>floor\<close>: the samples \<open>1/2\<close> and \<open>3\<close> are the bytes \<open>00 40 FF 7F\<close>, which
  decode to \<open>1/2\<close> and \<open>32767/32768\<close>.\<close>

theorem codec_round_trip_witness:
  "rounds floor
   \<and> encode floor [1 / 2, 3] = [0, 64, 255, 127]
   \<and> decode (encode floor [1 / 2, 3]) = [1 / 2, 32767 / 32768]
   \<and> \<bar>decode_sample (encode_sample floor (1 / 2)) - 1 / 2\<bar> \<le> 1 / 32768
   \<and> sint (encode_sample floor 3) = 32767
   \<and> sint (encode_sample floor (- 3)) = - 32768"
proof -
  have a: "encode floor [1 / 2, 3] = [0, 64, 255, 127]"
    by (simp add: encode_def encode_sample_def to_le_bytes_def clamp16_def)
  have b: "decode [0, 64, 255, 127] = [1 / 2, 32767 / 32768]"
    by (simp add: of_le_bytes_def decode_sample_def word_cat_eq)
  show ?thesis
    using codec_round_trip [OF rounds_floor, of "[1 / 2, 3]" "1 / 2"]
      codec_round_trip [OF rounds_floor, of "[]" 3]
      codec_round_trip [OF rounds_floor, of "[]" "- 3"] rounds_floor a b
    by simp
qed

subsection \<open>The farewell phrase\<close>

text \<open>
  Claim C7 (part_000; App.tsx has no farewell phrase). A fragment is a farewell when
  its lower-cased text contains \<^verbatim>\<open>thank you salin\<close> or \<^verbatim>\<open>salamat salin\<close>. The input arm
  of the handler appends the fragment, sets \<open>LISTENING\<close> and, on a farewell, leaves a
  new timer of 3000 ms whose callback is the forced-sleep stop. At the end of the
  handler of a message with that input fragment and no output transcription the timer
  is there exactly when the fragment is a farewell and the message has no model turn
  without parts, on which line 133 throws. When the timer fires, the callback throws
  exactly when \<open>stop()\<close> throws on a live source: then the state is left as it was and
  no timer is added; otherwise the state becomes \<open>SLEEP\<close> and a timer of 5000 ms is
  added, whose callback sets the state \<open>IDLE\<close> and the mood \<open>NEUTRAL\<close>. With the
  farewell heard while two sources are live on which \<open>stop()\<close> throws, the state after
  the timer is \<open>LISTENING\<close> and no timer is pending; with the farewell in a message
  that has a model turn without parts, the handler throws and no timer is pending.
  With no source live, the state after the two timers is \<open>IDLE\<close> and the mood
  \<open>NEUTRAL\<close>.
\<close>

theorem farewell_forced_sleep_unguarded_in_part000:
  "is_farewell frag =
     (\<exists>a b. toLowerCase frag = a @ ''thank you salin'' @ b
           \<or> toLowerCase frag = a @ ''salamat salin'' @ b)
   \<and> input_arm_part000 (Some frag) s =
       Normal (if is_farewell frag
               then s\<lparr>currentInputTranscription := currentInputTranscription s @ frag,
                      state := LISTENING,
                      timers := timers s @ [(3000, ForcedSleepStop)]\<rparr>
               else s\<lparr>currentInputTranscription := currentInputTranscription s @ frag,
                      state := LISTENING\<rparr>)
   \<and> timers (final (onmessage_part000 e
         (m\<lparr>outputTranscription := None, inputTranscription := Some (Some frag)\<rparr>) s)) =
       (if is_farewell frag \<and> modelTurn m \<noteq> NoParts
        then timers s @ [(3000, ForcedSleepStop)] else timers s)
   \<and> throws (step_part000 e (Timeout (length ts))
         (s\<lparr>timers := ts @ (3000, ForcedSleepStop) # us\<rparr>))
       = list_ex (stopThrows e) (sourcesRef s)
   \<and> state (final (step_part000 e (Timeout (length ts))
         (s\<lparr>timers := ts @ (3000, ForcedSleepStop) # us\<rparr>)))
       = (if list_ex (stopThrows e) (sourcesRef s) then state s else SLEEP)
   \<and> timers (final (step_part000 e (Timeout (length ts))
         (s\<lparr>timers := ts @ (3000, ForcedSleepStop) # us\<rparr>)))
       = (if list_ex (stopThrows e) (sourcesRef s) then ts @ us
          else ts @ us @ [(5000, WakeFromSleep)])
   \<and> step_part000 e (Timeout (length ts)) (s\<lparr>timers := ts @ (5000, WakeFromSleep) # us\<rparr>)
       = Normal (s\<lparr>state := IDLE, mood := NEUTRAL, timers := ts @ us\<rparr>)
   \<and> state (run_part000 farewell_then_timer speaking_happy) = LISTENING
   \<and> timers (run_part000 farewell_then_timer speaking_happy) = []
   \<and> sourcesRef (run_part000 farewell_then_timer speaking_happy) = [1, 2]
   \<and> onmessage_part000 quiet_env (farewell\<lparr>modelTurn := NoParts\<rparr>) playing
       = Throw TypeError playing
   \<and> timers playing = []
   \<and> run_part000 farewell_run playing =
       initial\<lparr>currentInputTranscription := ''Thank you Salin!''\<rparr>"
proof -
  have f: "is_farewell frag =
     (\<exists>a b. toLowerCase frag = a @ ''thank you salin'' @ b
           \<or> toLowerCase frag = a @ ''salamat salin'' @ b)"
    unfolding is_farewell_def str_includes_iff by blast
  have arm: "input_arm_part000 (Some frag) s =
       Normal (if is_farewell frag
               then s\<lparr>currentInputTranscription := currentInputTranscription s @ frag,
                      state := LISTENING,
                      timers := timers s @ [(3000, ForcedSleepStop)]\<rparr>
               else s\<lparr>currentInputTranscription := currentInputTranscription s @ frag,
                      state := LISTENING\<rparr>)"
    by (simp add: input_arm_part000_def Let_def)
  let ?m = "m\<lparr>outputTranscription := None, inputTranscription := Some (Some frag)\<rparr>"
  have msg: "timers (final (onmessage_part000 e ?m s)) =
       (if is_farewell frag \<and> modelTurn m \<noteq> NoParts
        then timers s @ [(3000, ForcedSleepStop)] else timers s)"
  proof (cases "is_farewell frag")
    case False
    then show ?thesis by (simp add: farewell_message_no_timer)
  next
    case far: True
    show ?thesis
    proof (cases "modelTurn m = NoParts")
      case True
      then show ?thesis by (simp add: onmessage_part000_NoParts)
    next
      case False
      then have parts: "modelTurn ?m \<noteq> NoParts" by simp
      have "timers (final (onmessage_part000 e ?m s)) = timers s @ [(3000, ForcedSleepStop)]"
        by (rule farewell_message_timers[OF _ _ far parts]) simp_all
      with far False show ?thesis by simp
    qed
  qed
  let ?s3 = "s\<lparr>timers := ts @ (3000, ForcedSleepStop) # us\<rparr>"
  have st: "step_part000 e (Timeout (length ts)) ?s3 =
      stopConversation_part000 (stopThrows e) True (s\<lparr>timers := ts @ us\<rparr>)"
    by (simp add: remove_timer_def)
  have fire: "throws (step_part000 e (Timeout (length ts)) ?s3)
       = list_ex (stopThrows e) (sourcesRef s)"
    "state (final (step_part000 e (Timeout (length ts)) ?s3))
       = (if list_ex (stopThrows e) (sourcesRef s) then state s else SLEEP)"
    "timers (final (step_part000 e (Timeout (length ts)) ?s3))
       = (if list_ex (stopThrows e) (sourcesRef s) then ts @ us
          else ts @ us @ [(5000, WakeFromSleep)])"
    unfolding st by (simp_all add: stop_part000_throws stop_part000_sleep)
  have wake: "step_part000 e (Timeout (length ts))
        (s\<lparr>timers := ts @ (5000, WakeFromSleep) # us\<rparr>)
       = Normal (s\<lparr>state := IDLE, mood := NEUTRAL, timers := ts @ us\<rparr>)"
    by (simp add: remove_timer_def)
  have h: "onmessage_part000 throwing_env farewell speaking_happy =
      Normal (speaking_happy\<lparr>currentInputTranscription := ''Thank you Salin!'',
                state := LISTENING, timers := [(3000, ForcedSleepStop)]\<rparr>)"
  proof -
    have t: "transcription_block_part000 farewell speaking_happy =
      Normal (speaking_happy\<lparr>currentInputTranscription :=
                currentInputTranscription speaking_happy @ ''Thank you Salin!'',
              state := LISTENING,
              timers := timers speaking_happy @ [(3000, ForcedSleepStop)]\<rparr>)"
      by (rule farewell_block[OF _ _ is_farewell_example])
        (simp_all add: farewell_def bare_def)
    show ?thesis
      unfolding onmessage_part000_def t
      by (simp add: farewell_def bare_def audioData_def turnComplete_block_def
          audio_block_part000_def interrupted_block_part000_def speaking_happy_def
          playing_def initial_def)
  qed
  have r: "run_part000 farewell_then_timer speaking_happy =
      speaking_happy\<lparr>currentInputTranscription := ''Thank you Salin!'',
        state := LISTENING, sessionRef := False, audioContextRef := False,
        outputAudioContextRef := False, stopCalls := [1]\<rparr>"
    by (simp del: step_part000.simps add: farewell_then_timer_def step_part000.simps(6) h)
      (simp add: remove_timer_def stopConversation_part000_def close_handles_def
        speaking_happy_def playing_def initial_def throwing_env_def quiet_env_def
        always_def)
  have bad: "state (run_part000 farewell_then_timer speaking_happy) = LISTENING"
    "timers (run_part000 farewell_then_timer speaking_happy) = []"
    "sourcesRef (run_part000 farewell_then_timer speaking_happy) = [1, 2]"
    unfolding r by (simp_all add: speaking_happy_def playing_def initial_def)
  have np: "onmessage_part000 quiet_env (farewell\<lparr>modelTurn := NoParts\<rparr>) playing
       = Throw TypeError playing"
    by (simp add: onmessage_part000_def)
  have tp: "timers playing = []"
    by (simp add: playing_def initial_def)
  have good: "run_part000 farewell_run playing =
      initial\<lparr>currentInputTranscription := ''Thank you Salin!''\<rparr>"
    by (simp del: step_part000.simps
        add: farewell_run_def step_part000.simps(6) farewell_playing forced_sleep_heard
          wake_asleep)
  from f arm msg fire wake bad np tp good show ?thesis by blast
qed

subsection \<open>The close of the channel\<close>

text \<open>
  Claim C8. \<open>onclose\<close> sets the state to \<open>IDLE\<close> exactly when the state captured by its
  closure is not \<open>SLEEP\<close>, whatever the state is when the channel closes, and it sets no
  error message. In part_000, a conversation started from \<open>IDLE\<close> and put to sleep by the
  farewell is in state \<open>SLEEP\<close> when its channel closes, and its \<open>onclose\<close>, holding
  \<open>IDLE\<close>, sets \<open>IDLE\<close>. A second conversation, started during that sleep, is
  \<open>LISTENING\<close> once open, and when its channel closes, its \<open>onclose\<close>, holding \<open>SLEEP\<close>,
  leaves \<open>LISTENING\<close>.
\<close>

theorem onclose_tests_the_captured_state:
  "state (onclose captured s) = (if captured \<noteq> SLEEP then IDLE else state s)
   \<and> errorMessage (onclose captured s) = errorMessage s
   \<and> state initial = IDLE
   \<and> state (run_part000 sleep_trace initial) = SLEEP
   \<and> state (final (step_part000 quiet_env (Close (state initial))
        (run_part000 sleep_trace initial))) = IDLE
   \<and> state (run_part000 (sleep_trace @ restart_trace) initial) = LISTENING
   \<and> state (final (step_part000 quiet_env (Close (state (run_part000 sleep_trace initial)))
        (run_part000 (sleep_trace @ restart_trace) initial))) = LISTENING"
proof -
  have i: "state initial = IDLE" by (simp add: initial_def)
  have s1: "run_part000 [(quiet_env, UserStart Connected), (quiet_env, Open)] initial = playing"
    by (simp add: begin_start_def with_contexts_def onopen_part000_def playing_def initial_def)
  have st: "sleep_trace =
      [(quiet_env, UserStart Connected), (quiet_env, Open)]
      @ [(quiet_env, Message farewell), (quiet_env, Timeout 0)]"
    by (simp add: sleep_trace_def)
  have s2: "run_part000 sleep_trace initial = asleep"
    unfolding st run_part000_append s1
    by (simp del: step_part000.simps
        add: step_part000.simps(6) farewell_playing forced_sleep_heard)
  have a: "state asleep = SLEEP" by (simp add: asleep_def)
  have r: "state (run_part000 restart_trace asleep) = LISTENING"
    by (simp add: restart_trace_def begin_start_def with_contexts_def onopen_part000_def)
  show ?thesis
    by (simp add: run_part000_append i s2 a r onclose_def)
qed

subsection \<open>A stop that throws\<close>

text \<open>
  Claim C9. In App.tsx neither \<open>stopConversation\<close> nor the interruption block ever
  throws, whatever \<open>stop()\<close> does. In part_000 each of them throws exactly when
  \<open>stop()\<close> throws on some live source. With two live sources on which \<open>stop()\<close> throws,
  \<open>stopConversation\<close> of part_000 ends with the exception after the first call: the set
  is not cleared and the state is not set; so does its handler of an interruption.
  App.tsx, from the same state, stops both, clears the set and sets the state.
\<close>

theorem unguarded_stop_throws_in_part000:
  "\<not> throws (stopConversation_App thr forceSleep s)
   \<and> \<not> throws (interrupted_block_App e m s)
   \<and> throws (stopConversation_part000 thr forceSleep s) = list_ex thr (sourcesRef s)
   \<and> throws (interrupted_block_part000 e m s)
       = (interrupted m \<and> list_ex (stopThrows e) (sourcesRef s))
   \<and> stopConversation_part000 always False speaking_happy =
       Throw InvalidStateError
         (speaking_happy\<lparr>sessionRef := False, audioContextRef := False,
            outputAudioContextRef := False, stopCalls := [1]\<rparr>)
   \<and> onmessage_part000 throwing_env interruption speaking_happy =
       Throw InvalidStateError (speaking_happy\<lparr>stopCalls := [1]\<rparr>)
   \<and> stopConversation_App always False speaking_happy =
       Normal (speaking_happy\<lparr>sessionRef := False, audioContextRef := False,
            outputAudioContextRef := False, stopCalls := [1, 2], sourcesRef := [],
            state := IDLE, mood := NEUTRAL\<rparr>)
   \<and> onmessage_App throwing_env interruption speaking_happy =
       Normal (speaking_happy\<lparr>stopCalls := [1, 2], sourcesRef := [], nextStartTimeRef := 0,
                 state := LISTENING\<rparr>)"
proof -
  have a: "\<not> throws (stopConversation_App thr forceSleep s)"
    by (simp add: stop_App_Normal)
  have b: "\<not> throws (interrupted_block_App e m s)"
    by (simp add: interrupted_block_App_def Let_def)
  have c: "stopConversation_part000 always False speaking_happy =
       Throw InvalidStateError
         (speaking_happy\<lparr>sessionRef := False, audioContextRef := False,
            outputAudioContextRef := False, stopCalls := [1]\<rparr>)"
    by (simp add: stopConversation_part000_def close_handles_def speaking_happy_def
        playing_def initial_def always_def)
  have d: "onmessage_part000 throwing_env interruption speaking_happy =
       Throw InvalidStateError (speaking_happy\<lparr>stopCalls := [1]\<rparr>)"
    by (simp add: onmessage_part000_def interruption_def bare_def audioData_def
      transcription_block_part000_def output_arm_part000_def
      input_arm_part000_def turnComplete_block_def audio_block_part000_def
      interrupted_block_part000_def speaking_happy_def playing_def initial_def throwing_env_def
      quiet_env_def always_def)
  have f: "stopConversation_App always False speaking_happy =
       Normal (speaking_happy\<lparr>sessionRef := False, audioContextRef := False,
            outputAudioContextRef := False, stopCalls := [1, 2], sourcesRef := [],
            state := IDLE, mood := NEUTRAL\<rparr>)"
    by (simp add: stop_App_Normal sleep_or_idle_def close_handles_def speaking_happy_def
        playing_def initial_def)
  from a b c d f show ?thesis
    by (simp add: stop_part000_throws interrupted_part000_throws interruption_speaking_App)
qed

subsection \<open>Only the model's entries are stored\<close>

text \<open>
  Claim C10. After any run of events from the initial state, in either version, every
  entry of the transcript has role \<open>Model\<close>, so the filter of the transcript view keeps
  every stored entry; and every single event keeps it so. The events are all the
  operations of the component: the only writers of the transcript are the turn-complete
  block, which appends an entry of role \<open>Model\<close>, and the clear button.
\<close>

theorem transcript_entries_are_model:
  "all_model (transcripts (run_App evs initial))
   \<and> all_model (transcripts (run_part000 evs initial))
   \<and> shown_translations (transcripts (run_App evs initial)) = transcripts (run_App evs initial)
   \<and> shown_translations (transcripts (run_part000 evs initial))
       = transcripts (run_part000 evs initial)
   \<and> (all_model (transcripts s) \<longrightarrow>
        all_model (transcripts (final (step_App e ev s)))
        \<and> all_model (transcripts (final (step_part000 e ev s))))"
  using run_App_all_model[OF all_model_initial, of evs]
    run_part000_all_model[OF all_model_initial, of evs]
    step_App_all_model[of s e ev] step_part000_all_model[of s e ev]
  by (simp add: shown_all_model)

text \<open>One turn stores one entry, which the view shows.\<close>

theorem transcript_entries_are_model_witness:
  "all_model (transcripts initial)
   \<and> transcripts (run_App one_turn initial) =
       [\<lparr>role = Model, entryText = ''Kumusta'', timestamp = 1700000000000\<rparr>]
   \<and> shown_translations (transcripts (run_App one_turn initial)) =
       [\<lparr>role = Model, entryText = ''Kumusta'', timestamp = 1700000000000\<rparr>]
   \<and> shown_translations (transcripts (run_part000 one_turn initial)) =
       [\<lparr>role = Model, entryText = ''Kumusta'', timestamp = 1700000000000\<rparr>]
   \<and> all_model (transcripts (final (step_App quiet_env ClearTranscripts initial)))"
  using transcript_entries_are_model
      [where evs = one_turn and s = initial and e = quiet_env and ev = ClearTranscripts]
    all_model_initial
  by (simp add: one_turn_App one_turn_part000)

end
